theory Spec2Isabelle
  imports Main "HOL-Library.Sublist"
begin

section \<open>Go strings\<close>

text \<open>
  A Go string is a sequence of bytes, and so is a \<^typ>\<open>string\<close> here: \<open>len\<close> is
  \<^const>\<open>length\<close>, \<open>s[:n]\<close> is \<^const>\<open>take\<close>, and a code point beyond ASCII is
  the bytes of its UTF-8 encoding.

  \<open>strings.TrimSpace\<close> removes, from both ends, every rune that \<open>unicode.IsSpace\<close>
  accepts. A rune at the start (or end) of a string is one of these exactly when the string
  starts (or ends) with the rune's UTF-8 encoding; any other byte sequence decodes to another
  rune or to the replacement rune, neither of which is white space. \<open>spaceRunes\<close> lists the
  encodings: U+0009..U+000D, U+0020, U+0085, U+00A0, U+1680, U+2000..U+200A, U+2028, U+2029,
  U+202F, U+205F and U+3000.
\<close>

definition spaceRunes :: "string list" where
  "spaceRunes =
    [[CHR 0x09], [CHR 0x0A], [CHR 0x0B], [CHR 0x0C], [CHR 0x0D], [CHR 0x20],
     [CHR 0xC2, CHR 0x85], [CHR 0xC2, CHR 0xA0],
     [CHR 0xE1, CHR 0x9A, CHR 0x80],
     [CHR 0xE2, CHR 0x80, CHR 0x80], [CHR 0xE2, CHR 0x80, CHR 0x81],
     [CHR 0xE2, CHR 0x80, CHR 0x82], [CHR 0xE2, CHR 0x80, CHR 0x83],
     [CHR 0xE2, CHR 0x80, CHR 0x84], [CHR 0xE2, CHR 0x80, CHR 0x85],
     [CHR 0xE2, CHR 0x80, CHR 0x86], [CHR 0xE2, CHR 0x80, CHR 0x87],
     [CHR 0xE2, CHR 0x80, CHR 0x88], [CHR 0xE2, CHR 0x80, CHR 0x89],
     [CHR 0xE2, CHR 0x80, CHR 0x8A],
     [CHR 0xE2, CHR 0x80, CHR 0xA8], [CHR 0xE2, CHR 0x80, CHR 0xA9],
     [CHR 0xE2, CHR 0x80, CHR 0xAF],
     [CHR 0xE2, CHR 0x81, CHR 0x9F],
     [CHR 0xE3, CHR 0x80, CHR 0x80]]"

text \<open>The width in bytes of the white-space rune a string starts with; 0 when it starts
  with none.\<close>

definition leadingSpace :: "string \<Rightarrow> nat" where
  "leadingSpace s =
     (case List.find (\<lambda>p. prefix p s) spaceRunes of None \<Rightarrow> 0 | Some p \<Rightarrow> length p)"

text \<open>The same for the rune a string ends with.\<close>

definition trailingSpace :: "string \<Rightarrow> nat" where
  "trailingSpace s =
     (case List.find (\<lambda>p. suffix p s) spaceRunes of None \<Rightarrow> 0 | Some p \<Rightarrow> length p)"

function TrimLeft :: "string \<Rightarrow> string" where
  "TrimLeft s = (if leadingSpace s = 0 then s else TrimLeft (drop (leadingSpace s) s))"
  by pat_completeness auto
termination
proof (relation "measure length")
  fix s assume nz: "leadingSpace s \<noteq> 0"
  have "leadingSpace [] = 0" by (simp add: leadingSpace_def spaceRunes_def)
  with nz have "s \<noteq> []" by auto
  with nz show "(drop (leadingSpace s) s, s) \<in> measure length" by simp
qed simp

function TrimRight :: "string \<Rightarrow> string" where
  "TrimRight s =
     (if trailingSpace s = 0 then s else TrimRight (take (length s - trailingSpace s) s))"
  by pat_completeness auto
termination
proof (relation "measure length")
  fix s assume nz: "trailingSpace s \<noteq> 0"
  have "trailingSpace [] = 0" by (simp add: trailingSpace_def spaceRunes_def)
  with nz have "s \<noteq> []" by auto
  with nz show "(take (length s - trailingSpace s) s, s) \<in> measure length" by simp
qed simp

declare TrimLeft.simps [simp del] TrimRight.simps [simp del]

definition TrimSpace :: "string \<Rightarrow> string" where
  "TrimSpace s = TrimRight (TrimLeft s)"

text \<open>
  \<open>strings.ToUpper\<close>: a string of ASCII bytes only has its letters \<open>a\<close>..\<open>z\<close> moved to
  \<open>A\<close>..\<open>Z\<close>; any other string goes through \<open>strings.Map(unicode.ToUpper, s)\<close>, which
  needs the Unicode case tables of the Go library and is a parameter of the model
  (\<open>unicodeToUpper\<close> below).
\<close>

definition isASCII :: "string \<Rightarrow> bool" where
  "isASCII s = list_all (\<lambda>c. (of_char c :: nat) < 128) s"

definition upperByte :: "char \<Rightarrow> char" where
  "upperByte c =
     (if 97 \<le> (of_char c :: nat) \<and> (of_char c :: nat) \<le> 122
      then char_of (of_char c - 32 :: nat) else c)"

section \<open>The payload\<close>

text \<open>
  A decoded payload is a \<open>map[string]any\<close>. The values the program tells apart are strings,
  \<open>json.Number\<close> (the text of a number literal, since the decoder runs with \<open>UseNumber\<close>),
  \<open>float64\<close> and nested maps; \<open>nil\<close>, booleans and slices all take the \<open>default\<close> branch.
  A \<open>nil\<close> map and an empty map answer every lookup alike, so both are \<^term>\<open>Map.empty\<close>.
\<close>

typedecl float64

datatype any =
    VNil
  | VBool bool
  | VString string
  | VNumber string
  | VFloat64 float64
  | VSlice "any list"
  | VMap "string \<Rightarrow> any option"

type_synonym payload = "string \<Rightarrow> any option"

section \<open>The network and the library\<close>

text \<open>A request handed to the HTTP client: the endpoint it is posted to and the bytes of
  its body.\<close>

record outbound =
  out_endpoint :: string
  out_body :: string

datatype httpResult = TransportError | HttpResponse nat string

text \<open>
  What the program takes from outside its own code:
  \<^item> \<open>unicodeToUpper\<close>: \<open>strings.Map(unicode.ToUpper, s)\<close> on a string with a non-ASCII byte;
  \<^item> \<open>sprintf0f\<close>: \<open>fmt.Sprintf("%.0f", v)\<close>;
  \<^item> \<open>jsonDecode\<close>: \<open>json.NewDecoder(body)\<close> with \<open>UseNumber\<close>, decoding the first JSON value
    into a \<open>map[string]any\<close>; \<open>None\<close> is an error, which leaves the map as it was;
  \<^item> \<open>jsonMarshal\<close>: \<open>json.Marshal\<close> of a map, the bytes of the JSON object;
  \<^item> \<open>newRequestOK\<close>: whether \<open>http.NewRequestWithContext\<close> accepts the endpoint;
  \<^item> \<open>httpDo\<close>: \<open>httpClient.Do\<close> under the request's deadline, a transport error (a timeout
    included) or the provider's status and body;
  \<^item> \<open>jsonDecodeResponse\<close>: decoding the provider's body into \<open>{ok, description}\<close>.
\<close>

record env =
  unicodeToUpper :: "string \<Rightarrow> string"
  sprintf0f :: "float64 \<Rightarrow> string"
  jsonDecode :: "string \<Rightarrow> payload option"
  jsonMarshal :: "payload \<Rightarrow> string"
  newRequestOK :: "string \<Rightarrow> bool"
  httpDo :: "outbound \<Rightarrow> httpResult"
  jsonDecodeResponse :: "string \<Rightarrow> (bool \<times> string) option"

definition ToUpper :: "env \<Rightarrow> string \<Rightarrow> string" where
  "ToUpper e s = (if isASCII s then map upperByte s else unicodeToUpper e s)"

section \<open>Message Composer\<close>

text \<open>\<open>nestedString\<close> (main.go 235-258): the loop over the keys, then the type switch.\<close>

fun nestedString :: "env \<Rightarrow> any \<Rightarrow> string list \<Rightarrow> string" where
  "nestedString e current (key # keys) =
     (case current of
        VMap m \<Rightarrow> (case m key of None \<Rightarrow> [] | Some v \<Rightarrow> nestedString e v keys)
      | _ \<Rightarrow> [])"
| "nestedString e current [] =
     (case current of
        VString v \<Rightarrow> TrimSpace v
      | VNumber v \<Rightarrow> v
      | VFloat64 v \<Rightarrow> TrimSpace (sprintf0f e v)
      | _ \<Rightarrow> [])"

text \<open>\<open>stringFromMap\<close> (main.go 260-279).\<close>

definition stringFromMap :: "env \<Rightarrow> payload \<Rightarrow> string \<Rightarrow> string" where
  "stringFromMap e payload key =
     (case payload key of
        None \<Rightarrow> []
      | Some val \<Rightarrow>
          (case val of
             VString v \<Rightarrow> TrimSpace v
           | VNumber v \<Rightarrow> v
           | VFloat64 v \<Rightarrow> TrimSpace (sprintf0f e v)
           | _ \<Rightarrow> []))"

text \<open>\<open>fallbackRaw\<close> (main.go 223-233).\<close>

definition maxRaw :: nat where
  "maxRaw = 3900"

definition fallbackRaw :: "string \<Rightarrow> string" where
  "fallbackRaw raw =
     (let trimmed = TrimSpace raw in
      if trimmed = [] then []
      else if length trimmed > maxRaw then take maxRaw trimmed @ ''...''
      else trimmed)"

text \<open>
  \<open>buildTelegramMessage\<close> (main.go 162-221) in two parts. \<open>builderString\<close> is the content
  of the \<open>strings.Builder\<close> when line 210 reads it: each write appends to the builder, which
  is passed along.
\<close>

definition builderString :: "env \<Rightarrow> payload \<Rightarrow> string" where
  "builderString e payload =
     (let builder = [];
          monitorName = nestedString e (VMap payload) [''monitor'', ''name''];
          builder = (if monitorName \<noteq> []
                     then builder @ ''Monitor: '' @ monitorName @ [CHR 0x0A] else builder);
          status = stringFromMap e payload ''status'';
          builder = (if status \<noteq> []
                     then builder @ ''Status: '' @ ToUpper e status @ [CHR 0x0A] else builder);
          reason = stringFromMap e payload ''incidentReason'';
          reason = (if reason = [] then stringFromMap e payload ''msg'' else reason);
          builder = (if reason \<noteq> []
                     then builder @ ''Reason: '' @ reason @ [CHR 0x0A] else builder);
          monitorURL = nestedString e (VMap payload) [''monitor'', ''url''];
          builder = (if monitorURL \<noteq> []
                     then builder @ ''URL: '' @ monitorURL @ [CHR 0x0A] else builder);
          timestamp = stringFromMap e payload ''time'';
          builder = (if timestamp \<noteq> []
                     then builder @ ''Time: '' @ timestamp @ [CHR 0x0A] else builder);
          ping = stringFromMap e payload ''ping'';
          builder = (if ping \<noteq> []
                     then builder @ ''Ping: '' @ ping @ [CHR 0x0A] else builder)
      in builder)"

definition buildTelegramMessage :: "env \<Rightarrow> payload \<Rightarrow> string \<Rightarrow> string" where
  "buildTelegramMessage e payload raw =
     (let text = TrimSpace (builderString e payload) in
      if text = [] then fallbackRaw raw
      else
        let rawText = fallbackRaw raw;
            text = (if rawText \<noteq> [] then text @ [CHR 0x0A] @ ''---'' @ [CHR 0x0A] @ rawText
                    else text)
        in text)"

text \<open>The values the composer extracts, in the order it reads them (main.go 165, 172, 179,
  181, 189, 196, 203).\<close>

definition extractedFields :: "env \<Rightarrow> payload \<Rightarrow> string list" where
  "extractedFields e payload =
     [nestedString e (VMap payload) [''monitor'', ''name''],
      stringFromMap e payload ''status'',
      stringFromMap e payload ''incidentReason'',
      stringFromMap e payload ''msg'',
      nestedString e (VMap payload) [''monitor'', ''url''],
      stringFromMap e payload ''time'',
      stringFromMap e payload ''ping'']"

section \<open>Notification Dispatcher\<close>

record telegramClient =
  baseURL :: string
  botToken :: string
  chatID :: string

datatype sendError =
    ErrEmptyMessage
  | ErrCreateRequest
  | ErrRequestFailed
  | ErrStatus nat string
  | ErrDecodeResponse
  | ErrAPI string

text \<open>
  \<open>sendMessage\<close> (main.go 281-330) returns its error (\<open>None\<close> is \<open>nil\<close>) and the requests
  it handed to \<open>httpClient.Do\<close>. The body of the request is \<open>json.Marshal\<close> of the map
  of lines 287-291, not the text itself: the encoder escapes the text and replaces every byte
  that is not valid UTF-8. \<open>json.Marshal\<close> of a map of two strings and a boolean cannot
  fail, so that early return has no branch here. The client's \<open>httpClient\<close> and
  \<open>requestTimeout\<close> act through \<open>httpDo\<close>.
\<close>

definition sendMessage :: "env \<Rightarrow> telegramClient \<Rightarrow> string \<Rightarrow> sendError option \<times> outbound list" where
  "sendMessage e c txt =
     (if TrimSpace txt = [] then (Some ErrEmptyMessage, [])
      else
        let endpoint = baseURL c @ ''/bot'' @ botToken c @ ''/sendMessage'';
            payload = [''chat_id'' \<mapsto> VString (chatID c),
                       ''text'' \<mapsto> VString txt,
                       ''disable_web_page_preview'' \<mapsto> VBool True];
            body = jsonMarshal e payload;
            req = \<lparr>out_endpoint = endpoint, out_body = body\<rparr>
        in if \<not> newRequestOK e endpoint then (Some ErrCreateRequest, [])
           else
             (case httpDo e req of
                TransportError \<Rightarrow> (Some ErrRequestFailed, [req])
              | HttpResponse code body \<Rightarrow>
                  if code \<ge> 300 then (Some (ErrStatus code (TrimSpace (take 512 body))), [req])
                  else
                    (case jsonDecodeResponse e body of
                       None \<Rightarrow> (Some ErrDecodeResponse, [req])
                     | Some (ok, description) \<Rightarrow>
                         if \<not> ok
                         then (Some (ErrAPI (if description = [] then ''unknown error''
                                             else description)), [req])
                         else (None, [req]))))"

section \<open>Request Handler\<close>

record config =
  listenAddr :: string
  webhookToken :: string
  telegramBotToken :: string
  telegramChatID :: string
  telegramBaseURL :: string
  requestTimeout :: int

text \<open>
  A request as the handler reads it: the method, the \<open>Authorization\<close> header (\<open>None\<close> when
  the request has none), and the body as a stream: the bytes it delivers, then either the
  end of the stream or a read error.
\<close>

record request =
  reqMethod :: string
  reqAuthorization :: "string option"
  reqBody :: string
  reqBodyFails :: bool

record response =
  respStatus :: nat
  respHeader :: "(string \<times> string) list"
  respBody :: string

definition maxPayloadBytes :: nat where
  "maxPayloadBytes = 2 ^ 20"

text \<open>\<open>Header.Get\<close>: the empty string for a header that is absent.\<close>

definition headerGet :: "string option \<Rightarrow> string" where
  "headerGet h = (case h of None \<Rightarrow> [] | Some v \<Rightarrow> v)"

text \<open>
  \<open>io.ReadAll(io.LimitReader(r.Body, n))\<close>: the limited reader reports the end of the
  stream once it has handed out \<open>n\<close> bytes, without reading further, so a longer body is cut
  to its first \<open>n\<close> bytes and no error is returned; a read error is seen only when it comes
  before that.
\<close>

definition readAllLimited :: "nat \<Rightarrow> string \<Rightarrow> bool \<Rightarrow> string option" where
  "readAllLimited n bytes fails =
     (if n \<le> length bytes then Some (take n bytes)
      else if fails then None
      else Some bytes)"

text \<open>\<open>http.Error\<close>: the headers set so far, the plain-text content type, the status and
  the message followed by a newline.\<close>

definition httpError :: "(string \<times> string) list \<Rightarrow> string \<Rightarrow> nat \<Rightarrow> response" where
  "httpError hdr msg code =
     \<lparr>respStatus = code,
      respHeader = hdr @ [(''Content-Type'', ''text/plain; charset=utf-8''),
                          (''X-Content-Type-Options'', ''nosniff'')],
      respBody = msg @ [CHR 0x0A]\<rparr>"

text \<open>The response of main.go 156-158.\<close>

definition accepted :: response where
  \<open>accepted =
     \<lparr>respStatus = 202, respHeader = [(''Content-Type'', ''application/json'')],
      respBody = ''{"ok":true}''\<rparr>\<close>

text \<open>
  \<open>webhookHandler\<close> (main.go 112-160) returns the response it writes and the requests sent
  to the provider. Log lines are not modelled.
\<close>

definition webhookHandler ::
  "env \<Rightarrow> config \<Rightarrow> telegramClient \<Rightarrow> request \<Rightarrow> response \<times> outbound list" where
  \<open>webhookHandler e cfg client r =
     (let expectedAuthHeader = ''Bearer '' @ webhookToken cfg in
      if reqMethod r \<noteq> ''POST''
      then (httpError [(''Allow'', ''POST'')] ''method not allowed'' 405, [])
      else if headerGet (reqAuthorization r) \<noteq> expectedAuthHeader
      then (httpError [] ''unauthorized'' 401, [])
      else
        (case readAllLimited maxPayloadBytes (reqBody r) (reqBodyFails r) of
           None \<Rightarrow> (httpError [] ''failed to read body'' 400, [])
         | Some body \<Rightarrow>
             if length body = 0 then (httpError [] ''empty body'' 400, [])
             else
               let payload = (case jsonDecode e body of None \<Rightarrow> Map.empty | Some p \<Rightarrow> p);
                   message = buildTelegramMessage e payload body
               in (case sendMessage e client message of
                     (Some err, calls) \<Rightarrow>
                       (httpError [] ''failed to forward notification'' 502, calls)
                   | (None, calls) \<Rightarrow> (accepted, calls))))\<close>

section \<open>An example deployment\<close>

text \<open>
  The README's smoke test: the token \<open>tkn\<close>, the body
  \<open>{"monitor":{"name":"Demo"},"status":"up","msg":"All good"}\<close> and a provider that answers
  \<open>200 {"ok":true}\<close>. \<open>exampleEnv\<close> decodes that one body to its object and fails on
  every other body; it is used below only on that body and on bodies that are not JSON text
  (one space, \<open>hello\<close>, a run of \<open>x\<close>), where the Go decoder fails too. Its
  \<open>unicodeToUpper\<close> and \<open>sprintf0f\<close> are never reached by the examples.
\<close>

definition exampleBody :: string where
  \<open>exampleBody = ''{"monitor":{"name":"Demo"},"status":"up","msg":"All good"}''\<close>

definition examplePayload :: payload where
  "examplePayload =
     [''monitor'' \<mapsto> VMap [''name'' \<mapsto> VString ''Demo''],
      ''status'' \<mapsto> VString ''up'',
      ''msg'' \<mapsto> VString ''All good'']"

text \<open>
  \<open>exampleMarshal\<close> writes the object of \<open>sendMessage\<close> as \<open>json.Marshal\<close> does (keys in
  order, no white space) when its two strings hold printable ASCII other than \<open><\<close>, \<open>>\<close>
  and \<open>&\<close>, and newlines: a quote and a backslash get a backslash before them, a newline
  becomes backslash \<open>n\<close>. The examples send nothing else.
\<close>

definition exampleQuote :: "any option \<Rightarrow> string" where
  "exampleQuote v =
     (case v of
        Some (VString s) \<Rightarrow>
          [CHR 0x22]
          @ concat (map (\<lambda>c. if c = CHR 0x22 \<or> c = CHR 0x5C then [CHR 0x5C, c]
                              else if c = CHR 0x0A then [CHR 0x5C, CHR ''n'']
                              else [c]) s)
          @ [CHR 0x22]
      | _ \<Rightarrow> ''null'')"

definition exampleMarshal :: "payload \<Rightarrow> string" where
  \<open>exampleMarshal p =
     ''{"chat_id":'' @ exampleQuote (p ''chat_id'')
     @ '',"disable_web_page_preview":true,"text":'' @ exampleQuote (p ''text'') @ ''}''\<close>

definition exampleEnv :: env where
  \<open>exampleEnv =
     \<lparr>unicodeToUpper = (\<lambda>s. s),
      sprintf0f = (\<lambda>v. ''0''),
      jsonDecode = (\<lambda>b. if b = exampleBody then Some examplePayload else None),
      jsonMarshal = exampleMarshal,
      newRequestOK = (\<lambda>u. True),
      httpDo = (\<lambda>q. HttpResponse 200 ''{"ok":true}''),
      jsonDecodeResponse = (\<lambda>b. if b = ''{"ok":true}'' then Some (True, []) else None)\<rparr>\<close>

definition exampleConfig :: config where
  "exampleConfig =
     \<lparr>listenAddr = '':8080'', webhookToken = ''tkn'', telegramBotToken = ''123:ABC'',
      telegramChatID = ''42'', telegramBaseURL = ''https://api.telegram.org'',
      requestTimeout = 10000000000\<rparr>"

definition exampleClient :: telegramClient where
  "exampleClient =
     \<lparr>baseURL = ''https://api.telegram.org'', botToken = ''123:ABC'', chatID = ''42''\<rparr>"

definition exampleRequest :: "string \<Rightarrow> request" where
  "exampleRequest b =
     \<lparr>reqMethod = ''POST'', reqAuthorization = Some ''Bearer tkn'', reqBody = b,
      reqBodyFails = False\<rparr>"

section \<open>White space\<close>

lemma spaceRunes_nonempty: "p \<in> set spaceRunes \<Longrightarrow> p \<noteq> []"
  by (auto simp: spaceRunes_def)

lemma spaceRunes_prefix_free:
  "p \<in> set spaceRunes \<Longrightarrow> q \<in> set spaceRunes \<Longrightarrow> prefix q p \<Longrightarrow> q = p"
  unfolding spaceRunes_def by (simp, elim disjE; simp)

lemma leadingSpace_0_iff: "leadingSpace s = 0 \<longleftrightarrow> (\<forall>p\<in>set spaceRunes. \<not> prefix p s)"
  by (auto simp: leadingSpace_def find_None_iff spaceRunes_nonempty split: option.splits
      dest!: find_Some_iff[THEN iffD1] intro: nth_mem)

lemma trailingSpace_0_iff: "trailingSpace s = 0 \<longleftrightarrow> (\<forall>p\<in>set spaceRunes. \<not> suffix p s)"
  by (auto simp: trailingSpace_def find_None_iff spaceRunes_nonempty split: option.splits
      dest!: find_Some_iff[THEN iffD1] intro: nth_mem)

lemma leadingSpace_rune: "p \<in> set spaceRunes \<Longrightarrow> leadingSpace (p @ s) = length p"
proof -
  assume p: "p \<in> set spaceRunes"
  then obtain q where q: "List.find (\<lambda>q. prefix q (p @ s)) spaceRunes = Some q"
    by (cases "List.find (\<lambda>q. prefix q (p @ s)) spaceRunes") (auto simp: find_None_iff)
  then have "q \<in> set spaceRunes" "prefix q (p @ s)"
    by (auto simp: find_Some_iff)
  then have "prefix q p \<or> prefix p q"
    by (metis prefix_same_cases prefixI)
  with p \<open>q \<in> set spaceRunes\<close> have "q = p"
    using spaceRunes_prefix_free by blast
  with q show ?thesis by (simp add: leadingSpace_def)
qed

lemma TrimLeft_id: "leadingSpace s = 0 \<Longrightarrow> TrimLeft s = s"
  by (subst TrimLeft.simps) simp

lemma TrimRight_id: "trailingSpace s = 0 \<Longrightarrow> TrimRight s = s"
  by (subst TrimRight.simps) simp

lemma TrimLeft_step: "leadingSpace s \<noteq> 0 \<Longrightarrow> TrimLeft s = TrimLeft (drop (leadingSpace s) s)"
  by (subst TrimLeft.simps) simp

lemma TrimRight_step:
  "trailingSpace s \<noteq> 0 \<Longrightarrow> TrimRight s = TrimRight (take (length s - trailingSpace s) s)"
  by (subst TrimRight.simps) simp

lemma leadingSpace_TrimLeft: "leadingSpace (TrimLeft s) = 0"
proof (induction s rule: TrimLeft.induct)
  case (1 s)
  then show ?case by (cases "leadingSpace s = 0") (simp_all add: TrimLeft_id TrimLeft_step)
qed

lemma trailingSpace_TrimRight: "trailingSpace (TrimRight s) = 0"
proof (induction s rule: TrimRight.induct)
  case (1 s)
  then show ?case by (cases "trailingSpace s = 0") (simp_all add: TrimRight_id TrimRight_step)
qed

lemma prefix_TrimRight: "prefix (TrimRight s) s"
proof (induction s rule: TrimRight.induct)
  case (1 s)
  show ?case
  proof (cases "trailingSpace s = 0")
    case True
    then show ?thesis by (simp add: TrimRight_id)
  next
    case False
    with 1 have "prefix (TrimRight (take (length s - trailingSpace s) s))
        (take (length s - trailingSpace s) s)" by simp
    moreover have "prefix (take (length s - trailingSpace s) s) s"
      by (rule take_is_prefix)
    ultimately have "prefix (TrimRight (take (length s - trailingSpace s) s)) s"
      by (rule prefix_order.trans)
    with False show ?thesis by (simp add: TrimRight_step)
  qed
qed

lemma leadingSpace_prefix: "prefix t s \<Longrightarrow> leadingSpace s = 0 \<Longrightarrow> leadingSpace t = 0"
  unfolding leadingSpace_0_iff by (meson prefix_order.trans)

lemma leadingSpace_TrimSpace: "leadingSpace (TrimSpace s) = 0"
  unfolding TrimSpace_def
  by (rule leadingSpace_prefix[OF prefix_TrimRight leadingSpace_TrimLeft])

lemma trailingSpace_TrimSpace: "trailingSpace (TrimSpace s) = 0"
  unfolding TrimSpace_def by (rule trailingSpace_TrimRight)

lemma TrimSpace_id: "leadingSpace s = 0 \<Longrightarrow> trailingSpace s = 0 \<Longrightarrow> TrimSpace s = s"
  by (simp add: TrimSpace_def TrimLeft_id TrimRight_id)

lemma TrimSpace_idem: "TrimSpace (TrimSpace s) = TrimSpace s"
  by (rule TrimSpace_id[OF leadingSpace_TrimSpace trailingSpace_TrimSpace])

lemma leadingSpace_Nil: "leadingSpace [] = 0"
  by (simp add: leadingSpace_def spaceRunes_def)

lemma trailingSpace_Nil: "trailingSpace [] = 0"
  by (simp add: trailingSpace_def spaceRunes_def)

lemma TrimSpace_Nil: "TrimSpace [] = []"
  by (simp add: TrimSpace_id leadingSpace_Nil trailingSpace_Nil)

lemma TrimLeft_rune: "p \<in> set spaceRunes \<Longrightarrow> TrimLeft (p @ s) = TrimLeft s"
  using leadingSpace_rune[of p s] spaceRunes_nonempty[of p]
  by (simp add: TrimLeft_step)

lemma TrimLeft_spaces: "set ws \<subseteq> set spaceRunes \<Longrightarrow> TrimLeft (concat ws) = []"
proof (induction ws)
  case Nil
  show ?case by (simp add: TrimLeft_id leadingSpace_Nil)
next
  case (Cons w ws)
  then show ?case by (simp add: TrimLeft_rune)
qed

lemma TrimSpace_spaces: "set ws \<subseteq> set spaceRunes \<Longrightarrow> TrimSpace (concat ws) = []"
  by (simp add: TrimSpace_def TrimLeft_spaces TrimRight_id trailingSpace_Nil)

lemma trailingSpace_rune:
  "trailingSpace s \<noteq> 0 \<Longrightarrow> \<exists>p\<in>set spaceRunes. suffix p s \<and> trailingSpace s = length p"
proof -
  assume nz: "trailingSpace s \<noteq> 0"
  then obtain p where p: "List.find (\<lambda>p. suffix p s) spaceRunes = Some p"
    by (cases "List.find (\<lambda>p. suffix p s) spaceRunes") (auto simp: trailingSpace_def)
  then have "p \<in> set spaceRunes" "suffix p s"
    by (auto simp: find_Some_iff)
  moreover from p have "trailingSpace s = length p"
    by (simp add: trailingSpace_def)
  ultimately show ?thesis by blast
qed

lemma suffix_avoiding: "suffix p (xs @ c # ys) \<Longrightarrow> c \<notin> set p \<Longrightarrow> suffix p ys"
  by (auto simp: suffix_append suffix_Cons)

lemma TrimRight_keep:
  assumes c: "\<forall>p\<in>set spaceRunes. c \<notin> set p"
  shows "\<exists>zs. TrimRight (xs @ c # ys) = xs @ c # zs"
proof (induction "length ys" arbitrary: ys rule: less_induct)
  case less
  let ?s = "xs @ c # ys"
  show ?case
  proof (cases "trailingSpace ?s = 0")
    case True
    then show ?thesis by (simp add: TrimRight_id)
  next
    case False
    then obtain p where p: "p \<in> set spaceRunes" "suffix p ?s" "trailingSpace ?s = length p"
      using trailingSpace_rune by blast
    from c p(1) have "c \<notin> set p" by blast
    with p(2) have sf: "suffix p ys" by (rule suffix_avoiding)
    then have len: "length p \<le> length ys" by (rule suffix_length_le)
    from p(1) have "p \<noteq> []" by (rule spaceRunes_nonempty)
    have cut: "take (length ?s - length p) ?s = xs @ c # take (length ys - length p) ys"
      using len by (simp add: Suc_diff_le)
    have "length (take (length ys - length p) ys) < length ys"
      using len \<open>p \<noteq> []\<close> by (cases p) auto
    from less[OF this] obtain zs where
      "TrimRight (xs @ c # take (length ys - length p) ys) = xs @ c # zs" by blast
    with False p(3) cut have "TrimRight ?s = xs @ c # zs"
      by (simp add: TrimRight_step)
    then show ?thesis by blast
  qed
qed

lemma TrimSpace_keep:
  assumes "\<forall>p\<in>set spaceRunes. c \<notin> set p" and "leadingSpace (xs @ c # ys) = 0"
  shows "\<exists>zs. TrimSpace (xs @ c # ys) = xs @ c # zs"
  using TrimRight_keep[OF assms(1)] assms(2) by (simp add: TrimSpace_def TrimLeft_id)

lemma spaceRunes_length: "p \<in> set spaceRunes \<Longrightarrow> length p \<le> 3"
  by (auto simp: spaceRunes_def)

lemma spaceRunes_last_dot: "p \<in> set spaceRunes \<Longrightarrow> last p \<noteq> CHR ''.''"
  by (auto simp: spaceRunes_def)

lemma trailingSpace_last:
  assumes "s \<noteq> []" and "\<forall>p\<in>set spaceRunes. last p \<noteq> last s"
  shows "trailingSpace s = 0"
proof -
  have "\<not> suffix p s" if "p \<in> set spaceRunes" for p
  proof
    assume "suffix p s"
    then obtain zs where "s = zs @ p" by (auto simp: suffix_def)
    moreover have "p \<noteq> []" using that by (rule spaceRunes_nonempty)
    ultimately have "last s = last p" by simp
    with assms(2) that show False by auto
  qed
  then show ?thesis by (simp add: trailingSpace_0_iff)
qed

lemma leadingSpace_hd:
  assumes "s \<noteq> []" and "\<forall>p\<in>set spaceRunes. hd p \<noteq> hd s"
  shows "leadingSpace s = 0"
proof -
  have "\<not> prefix p s" if "p \<in> set spaceRunes" for p
  proof
    assume "prefix p s"
    then obtain zs where "s = p @ zs" by (auto simp: prefix_def)
    moreover have "p \<noteq> []" using that by (rule spaceRunes_nonempty)
    ultimately have "hd s = hd p" by simp
    with assms(2) that show False by auto
  qed
  then show ?thesis by (simp add: leadingSpace_0_iff)
qed

lemma leadingSpace_take:
  assumes "leadingSpace t = 0" and "3 \<le> n" and True: "n \<le> length t"
  shows "leadingSpace (take n t @ u) = 0"
proof -
  have "\<not> prefix p (take n t @ u)" if p: "p \<in> set spaceRunes" for p
  proof
    assume pre: "prefix p (take n t @ u)"
    have "length p \<le> length (take n t)"
      using spaceRunes_length[OF p] assms(2) True by simp
    from pre have "prefix p (take n t) \<or> (\<exists>us. p = take n t @ us)"
      by (auto simp: prefix_append)
    with \<open>length p \<le> length (take n t)\<close> have "prefix p (take n t)"
      using True by (elim disjE exE) simp_all
    then have "prefix p t" using take_is_prefix prefix_order.trans by blast
    with assms(1) p show False by (simp add: leadingSpace_0_iff)
  qed
  then show ?thesis by (simp add: leadingSpace_0_iff)
qed

section \<open>The composer, line by line\<close>

lemma app_if: "(if c then b @ x else b) = b @ (if c then x else [])"
  by simp

lemma builderString_lines:
  "builderString e payload =
     (if nestedString e (VMap payload) [''monitor'', ''name''] \<noteq> []
      then ''Monitor: '' @ nestedString e (VMap payload) [''monitor'', ''name''] @ [CHR 0x0A]
      else [])
     @ (if stringFromMap e payload ''status'' \<noteq> []
        then ''Status: '' @ ToUpper e (stringFromMap e payload ''status'') @ [CHR 0x0A]
        else [])
     @ (if (if stringFromMap e payload ''incidentReason'' = []
            then stringFromMap e payload ''msg''
            else stringFromMap e payload ''incidentReason'') \<noteq> []
        then ''Reason: '' @ (if stringFromMap e payload ''incidentReason'' = []
            then stringFromMap e payload ''msg''
            else stringFromMap e payload ''incidentReason'') @ [CHR 0x0A]
        else [])
     @ (if nestedString e (VMap payload) [''monitor'', ''url''] \<noteq> []
        then ''URL: '' @ nestedString e (VMap payload) [''monitor'', ''url''] @ [CHR 0x0A]
        else [])
     @ (if stringFromMap e payload ''time'' \<noteq> []
        then ''Time: '' @ stringFromMap e payload ''time'' @ [CHR 0x0A]
        else [])
     @ (if stringFromMap e payload ''ping'' \<noteq> []
        then ''Ping: '' @ stringFromMap e payload ''ping'' @ [CHR 0x0A]
        else [])"
  unfolding builderString_def
  by (simp only: Let_def app_if append_Nil append_assoc)

lemma builderString_Nil_iff:
  "builderString e payload = [] \<longleftrightarrow> list_all (\<lambda>v. v = []) (extractedFields e payload)"
  unfolding builderString_lines extractedFields_def by simp

lemma builderString_hd:
  "builderString e payload \<noteq> [] \<Longrightarrow> hd (builderString e payload) \<in> set ''MSRUTP''"
  unfolding builderString_lines by (simp split: if_splits)

lemma letter_not_space:
  "c \<in> set ''MSRUTP:'' \<Longrightarrow> p \<in> set spaceRunes \<Longrightarrow> c \<notin> set p"
  unfolding spaceRunes_def by auto

lemma letter_not_space_hd:
  "c \<in> set ''MSRUTP'' \<Longrightarrow> p \<in> set spaceRunes \<Longrightarrow> hd p \<noteq> c"
  unfolding spaceRunes_def by auto

lemma leadingSpace_builderString: "leadingSpace (builderString e payload) = 0"
proof (cases "builderString e payload = []")
  case True
  then show ?thesis by (simp add: leadingSpace_Nil)
next
  case False
  from builderString_hd[OF False] show ?thesis
    by (intro leadingSpace_hd[OF False] ballI letter_not_space_hd)
qed

lemma TrimSpace_builderString_Nil_iff:
  "TrimSpace (builderString e payload) = [] \<longleftrightarrow> builderString e payload = []"
proof
  assume t: "TrimSpace (builderString e payload) = []"
  show "builderString e payload = []"
  proof (rule ccontr)
    assume ne: "builderString e payload \<noteq> []"
    then obtain c ys where b: "builderString e payload = [] @ c # ys"
      by (cases "builderString e payload") auto
    with builderString_hd[OF ne] have "c \<in> set ''MSRUTP:''" by auto
    then have "\<forall>p\<in>set spaceRunes. c \<notin> set p" using letter_not_space by blast
    from TrimSpace_keep[OF this, of "[]" ys] leadingSpace_builderString[of e payload] b t
    show False by auto
  qed
next
  assume "builderString e payload = []"
  then show "TrimSpace (builderString e payload) = []" by (simp add: TrimSpace_Nil)
qed

lemma buildTelegramMessage_eq:
  "buildTelegramMessage e payload raw =
     (if builderString e payload = [] then fallbackRaw raw
      else TrimSpace (builderString e payload)
           @ (if fallbackRaw raw = [] then [] else [CHR 0x0A] @ ''---'' @ [CHR 0x0A] @ fallbackRaw raw))"
  unfolding buildTelegramMessage_def Let_def
  by (simp add: TrimSpace_builderString_Nil_iff)

lemma fallbackRaw_Nil_iff: "fallbackRaw raw = [] \<longleftrightarrow> TrimSpace raw = []"
  by (simp add: fallbackRaw_def Let_def maxRaw_def)

lemma length_fallbackRaw: "length (fallbackRaw raw) \<le> 3903"
  by (simp add: fallbackRaw_def Let_def maxRaw_def)

lemma TrimSpace_fallbackRaw: "TrimSpace (fallbackRaw raw) = fallbackRaw raw"
proof (cases "length (TrimSpace raw) > maxRaw")
  case True
  let ?x = "take maxRaw (TrimSpace raw) @ ''...''"
  have ne: "TrimSpace raw \<noteq> []" using True by auto
  have "leadingSpace ?x = 0"
    using True by (intro leadingSpace_take leadingSpace_TrimSpace) (simp_all add: maxRaw_def)
  moreover have "trailingSpace ?x = 0"
    by (rule trailingSpace_last) (simp_all add: spaceRunes_last_dot)
  ultimately have "TrimSpace ?x = ?x" by (rule TrimSpace_id)
  with True ne show ?thesis by (simp add: fallbackRaw_def Let_def)
next
  case False
  then show ?thesis by (simp add: fallbackRaw_def Let_def TrimSpace_idem TrimSpace_Nil)
qed

lemma buildTelegramMessage_empty: "buildTelegramMessage e Map.empty raw = fallbackRaw raw"
  by (simp add: buildTelegramMessage_eq builderString_lines stringFromMap_def)

lemmas trim_eval = TrimSpace_def TrimLeft.simps TrimRight.simps leadingSpace_def
  trailingSpace_def spaceRunes_def suffix_to_prefix

section \<open>Evaluating the examples\<close>

lemma upperByte_letters:
  "map upperByte ''abcdefghijklmnopqrstuvwxyz'' = ''ABCDEFGHIJKLMNOPQRSTUVWXYZ''"
  by code_simp

lemma ToUpper_up: "ToUpper e ''up'' = ''UP''"
  using upperByte_letters by (simp add: ToUpper_def isASCII_def)


lemma TrimSpace_plain:
  assumes "s \<noteq> []" and "hd s \<notin> set (map hd spaceRunes)" and "last s \<notin> set (map last spaceRunes)"
  shows "TrimSpace s = s"
proof (rule TrimSpace_id)
  show "leadingSpace s = 0" using assms(1,2) by (intro leadingSpace_hd) (auto simp: image_iff)
  show "trailingSpace s = 0" using assms(1,3) by (intro trailingSpace_last) (auto simp: image_iff)
qed

lemma TrimSpace_exampleBody: "TrimSpace exampleBody = exampleBody"
  by (rule TrimSpace_plain) (simp_all add: exampleBody_def spaceRunes_def)




lemma stringFromMap_remove:
  "k \<noteq> key \<Longrightarrow> stringFromMap e (payload(key := None)) k = stringFromMap e payload k"
  by (simp add: stringFromMap_def)

lemma nestedString_remove:
  "k \<noteq> key \<Longrightarrow>
     nestedString e (VMap (payload(key := None))) (k # ks) = nestedString e (VMap payload) (k # ks)"
  by simp

lemma builderString_cong:
  "extractedFields e p = extractedFields e q \<Longrightarrow> builderString e p = builderString e q"
  unfolding extractedFields_def builderString_lines by simp

lemma extractedFields_blank:
  assumes "TrimSpace s = []"
  shows "extractedFields e (payload(key \<mapsto> VString s)) = extractedFields e (payload(key := None))"
  using assms by (simp add: extractedFields_def stringFromMap_def)

lemma extractedFields_blank_nested:
  assumes "TrimSpace s = []"
  shows "extractedFields e (payload(''monitor'' \<mapsto> VMap (m(key \<mapsto> VString s))))
       = extractedFields e (payload(''monitor'' \<mapsto> VMap (m(key := None))))"
  using assms by (simp add: extractedFields_def stringFromMap_def)

lemma buildTelegramMessage_cong:
  "extractedFields e p = extractedFields e q \<Longrightarrow>
     buildTelegramMessage e p raw = buildTelegramMessage e q raw"
  by (simp add: buildTelegramMessage_eq builderString_cong[of e p q])

section \<open>The handler and the dispatcher\<close>

lemma webhookHandler_dispatch:
  assumes "reqMethod r = ''POST''"
    and "headerGet (reqAuthorization r) = ''Bearer '' @ webhookToken cfg"
    and "readAllLimited maxPayloadBytes (reqBody r) (reqBodyFails r) = Some body"
    and "body \<noteq> []"
  shows "webhookHandler e cfg c r =
     (case sendMessage e c (buildTelegramMessage e
            (case jsonDecode e body of None \<Rightarrow> Map.empty | Some p \<Rightarrow> p) body) of
        (Some err, calls) \<Rightarrow> (httpError [] ''failed to forward notification'' 502, calls)
      | (None, calls) \<Rightarrow> (accepted, calls))"
  using assms by (simp add: webhookHandler_def Let_def)

lemma sendMessage_calls:
  "snd (sendMessage e c txt) = [] \<or>
   snd (sendMessage e c txt) =
     [\<lparr>out_endpoint = baseURL c @ ''/bot'' @ botToken c @ ''/sendMessage'', out_body = jsonMarshal e
            [''chat_id'' \<mapsto> VString (chatID c),
             ''text'' \<mapsto> VString txt,
             ''disable_web_page_preview'' \<mapsto> VBool True]\<rparr>]"
  by (simp add: sendMessage_def Let_def split: httpResult.split option.split)

lemma sendMessage_sent:
  assumes "TrimSpace txt \<noteq> []"
    and "newRequestOK e (baseURL c @ ''/bot'' @ botToken c @ ''/sendMessage'')"
  shows "snd (sendMessage e c txt) =
     [\<lparr>out_endpoint = baseURL c @ ''/bot'' @ botToken c @ ''/sendMessage'', out_body = jsonMarshal e
            [''chat_id'' \<mapsto> VString (chatID c),
             ''text'' \<mapsto> VString txt,
             ''disable_web_page_preview'' \<mapsto> VBool True]\<rparr>]"
  using assms by (simp add: sendMessage_def Let_def split: httpResult.split option.split)

lemma sendMessage_status_fails:
  assumes "httpDo e \<lparr>out_endpoint = baseURL c @ ''/bot'' @ botToken c @ ''/sendMessage'',
      out_body = jsonMarshal e
            [''chat_id'' \<mapsto> VString (chatID c),
             ''text'' \<mapsto> VString txt,
             ''disable_web_page_preview'' \<mapsto> VBool True]\<rparr>
        = HttpResponse code b"
    and "300 \<le> code"
  shows "fst (sendMessage e c txt) \<noteq> None"
  using assms by (simp add: sendMessage_def Let_def)

lemma readAllLimited_small:
  "length b < maxPayloadBytes \<Longrightarrow> readAllLimited maxPayloadBytes b False = Some b"
  by (simp add: readAllLimited_def)

lemma example_composed:
  "buildTelegramMessage exampleEnv examplePayload exampleBody
     = ''Monitor: Demo'' @ [CHR 0x0A] @ ''Status: UP'' @ [CHR 0x0A] @ ''Reason: All good''
       @ [CHR 0x0A] @ ''---'' @ [CHR 0x0A] @ exampleBody"
proof -
  have lines: "TrimSpace (builderString exampleEnv examplePayload)
       = ''Monitor: Demo'' @ [CHR 0x0A] @ ''Status: UP'' @ [CHR 0x0A] @ ''Reason: All good''"
    using ToUpper_up[of exampleEnv]
    by (simp add: builderString_lines examplePayload_def stringFromMap_def trim_eval)
  have raw: "fallbackRaw exampleBody = exampleBody"
    using TrimSpace_exampleBody by (simp add: fallbackRaw_def maxRaw_def exampleBody_def)
  have "exampleBody \<noteq> []" by (simp add: exampleBody_def)
  with lines raw show ?thesis
    using buildTelegramMessage_eq[of exampleEnv examplePayload exampleBody]
      TrimSpace_builderString_Nil_iff[of exampleEnv examplePayload]
    by simp
qed

lemma example_send:
  assumes "TrimSpace txt \<noteq> []"
  shows "sendMessage exampleEnv exampleClient txt =
     (None, [\<lparr>out_endpoint = ''https://api.telegram.org/bot123:ABC/sendMessage'',
              out_body = jsonMarshal exampleEnv
            [''chat_id'' \<mapsto> VString ''42'',
             ''text'' \<mapsto> VString txt,
             ''disable_web_page_preview'' \<mapsto> VBool True]\<rparr>])"
  using assms by (simp add: sendMessage_def exampleEnv_def exampleClient_def)

lemma example_dispatch:
  assumes "body \<noteq> []" and "length body \<le> maxPayloadBytes"
  shows "webhookHandler e exampleConfig c (exampleRequest body) =
     (case sendMessage e c (buildTelegramMessage e
            (case jsonDecode e body of None \<Rightarrow> Map.empty | Some p \<Rightarrow> p) body) of
        (Some err, calls) \<Rightarrow> (httpError [] ''failed to forward notification'' 502, calls)
      | (None, calls) \<Rightarrow> (accepted, calls))"
  using assms
  by (intro webhookHandler_dispatch)
     (auto simp: exampleRequest_def exampleConfig_def headerGet_def readAllLimited_def)

lemma example_decode_fails:
  "body \<noteq> exampleBody \<Longrightarrow> jsonDecode exampleEnv body = None"
  by (simp add: exampleEnv_def)

lemma example_long_body:
  "fallbackRaw (replicate 1048576 (CHR ''x'')) = replicate 3900 (CHR ''x'') @ ''...''"
proof -
  have "TrimSpace (replicate 1048576 (CHR ''x'')) = replicate 1048576 (CHR ''x'')"
    by (rule TrimSpace_plain) (simp_all add: spaceRunes_def)
  then show ?thesis by (simp add: fallbackRaw_def maxRaw_def)
qed

lemma nestedString_env:
  assumes "sprintf0f e' = sprintf0f e"
  shows "nestedString e' v ks = nestedString e v ks"
  using assms by (induction e v ks rule: nestedString.induct) (auto split: any.split option.split)

lemma stringFromMap_env:
  "sprintf0f e' = sprintf0f e \<Longrightarrow> stringFromMap e' p k = stringFromMap e p k"
  by (simp add: stringFromMap_def split: option.split any.split)

lemma buildTelegramMessage_env:
  assumes "unicodeToUpper e' = unicodeToUpper e" and "sprintf0f e' = sprintf0f e"
  shows "buildTelegramMessage e' p raw = buildTelegramMessage e p raw"
proof -
  have "builderString e' p = builderString e p"
    unfolding builderString_lines
    by (simp only: nestedString_env[OF assms(2)] stringFromMap_env[OF assms(2)] ToUpper_def assms(1))
  then show ?thesis by (simp add: buildTelegramMessage_eq)
qed

lemma example_auth:
  "headerGet (reqAuthorization (exampleRequest b)) = ''Bearer '' @ webhookToken exampleConfig"
  by (simp add: exampleRequest_def exampleConfig_def headerGet_def)

lemma example_hello:
  "webhookHandler exampleEnv exampleConfig exampleClient (exampleRequest ''hello'')
     = (accepted,
        [\<lparr>out_endpoint = ''https://api.telegram.org/bot123:ABC/sendMessage'',
          out_body = jsonMarshal exampleEnv
            [''chat_id'' \<mapsto> VString ''42'',
             ''text'' \<mapsto> VString ''hello'',
             ''disable_web_page_preview'' \<mapsto> VBool True]\<rparr>])"
proof -
  have t: "TrimSpace ''hello'' = ''hello''" by (simp add: trim_eval)
  have dec: "jsonDecode exampleEnv ''hello'' = None"
    by (rule example_decode_fails) (simp add: exampleBody_def)
  have msg: "buildTelegramMessage exampleEnv Map.empty ''hello'' = ''hello''"
    using t by (simp add: buildTelegramMessage_empty fallbackRaw_def maxRaw_def)
  from t have "TrimSpace ''hello'' \<noteq> []" by simp
  from example_send[OF this] dec msg example_dispatch[of "''hello''" exampleEnv exampleClient]
  show ?thesis by (simp add: maxPayloadBytes_def)
qed

section \<open>The claims\<close>

subsection \<open>C1: field values are embedded as they are\<close>

text \<open>
  C1 says that every special character of an extracted field value reaches the composed text
  behind a backslash. The composer of \<open>main.go\<close> has no escaping step: the dispatcher sets
  no \<open>parse_mode\<close>, the text is sent as plain text, and a value is written to the builder as
  it was extracted. For the monitor name \<open>a_b*c\<close> the text holds \<open>a_b*c\<close> unchanged, and no
  backslash at all.
\<close>

theorem special_characters_left_unescaped:
  \<open>buildTelegramMessage exampleEnv [''monitor'' \<mapsto> VMap [''name'' \<mapsto> VString ''a_b*c'']]
       ''{"monitor":{"name":"a_b*c"}}''
     = ''Monitor: a_b*c'' @ [CHR 0x0A] @ ''---'' @ [CHR 0x0A] @ ''{"monitor":{"name":"a_b*c"}}''
   \<and> CHR 0x5C \<notin> set (buildTelegramMessage exampleEnv
         [''monitor'' \<mapsto> VMap [''name'' \<mapsto> VString ''a_b*c'']] ''{"monitor":{"name":"a_b*c"}}'')\<close>
  by (simp add: buildTelegramMessage_eq builderString_lines stringFromMap_def fallbackRaw_def
      maxRaw_def trim_eval)

text \<open>
  C1 as amended: the composer escapes nothing. The field section (the builder) is the
  concatenation, in the order Monitor, Status, Reason, URL, Time, Ping, of one line per field
  whose extracted value is not empty: the label, unescaped, then the value exactly as extracted
  (the status through \<open>strings.ToUpper\<close>), then a newline. The composed text is that section
  with surrounding white space trimmed, followed by the separator line \<open>---\<close> and the raw
  excerpt when there is one, or the raw fallback alone when no field was extracted.
\<close>

theorem field_values_embedded_verbatim:
  "builderString e payload =
     (let monitorName = nestedString e (VMap payload) [''monitor'', ''name''];
          status = stringFromMap e payload ''status'';
          reason = (if stringFromMap e payload ''incidentReason'' = []
                    then stringFromMap e payload ''msg''
                    else stringFromMap e payload ''incidentReason'');
          monitorURL = nestedString e (VMap payload) [''monitor'', ''url''];
          timestamp = stringFromMap e payload ''time'';
          ping = stringFromMap e payload ''ping''
      in concat (map (\<lambda>(label, val, shown). label @ shown @ [CHR 0x0A])
           (filter (\<lambda>(label, val, shown). val \<noteq> [])
              [(''Monitor: '', monitorName, monitorName),
               (''Status: '', status, ToUpper e status),
               (''Reason: '', reason, reason),
               (''URL: '', monitorURL, monitorURL),
               (''Time: '', timestamp, timestamp),
               (''Ping: '', ping, ping)])))
   \<and> buildTelegramMessage e payload raw =
       (if builderString e payload = [] then fallbackRaw raw
        else TrimSpace (builderString e payload)
             @ (if fallbackRaw raw = [] then []
                else [CHR 0x0A] @ ''---'' @ [CHR 0x0A] @ fallbackRaw raw))"
proof
  show "buildTelegramMessage e payload raw =
       (if builderString e payload = [] then fallbackRaw raw
        else TrimSpace (builderString e payload)
             @ (if fallbackRaw raw = [] then []
                else [CHR 0x0A] @ ''---'' @ [CHR 0x0A] @ fallbackRaw raw))"
    by (rule buildTelegramMessage_eq)
qed (simp add: builderString_lines Let_def)

text \<open>
  The README's payload: three fields, three lines.
\<close>

theorem field_values_embedded_verbatim_witness:
  \<open>builderString exampleEnv examplePayload
     = ''Monitor: Demo'' @ [CHR 0x0A] @ ''Status: UP'' @ [CHR 0x0A] @ ''Reason: All good'' @ [CHR 0x0A]\<close>
  using field_values_embedded_verbatim[of exampleEnv examplePayload exampleBody] ToUpper_up
  by (simp add: examplePayload_def stringFromMap_def trim_eval)

subsection \<open>C2: the text leads with a label, not with a status marker\<close>




subsection \<open>C3: a body over 1 MiB is cut, not rejected\<close>

text \<open>
  C3 says that a body longer than 1 MiB is answered with 400 and no outbound call. The
  handler reads through \<open>io.LimitReader\<close>, which stops after 1048576 bytes without an
  error, so the length past the cap is never seen. A body of 1048577 bytes \<open>x\<close> is cut to
  1048576 bytes, fails to decode, is composed from its raw bytes and is sent: the response
  is 202, with one outbound call.
\<close>

theorem oversized_body_is_accepted:
  \<open>maxPayloadBytes < length (reqBody (exampleRequest (replicate 1048577 (CHR ''x''))))
   \<and> webhookHandler exampleEnv exampleConfig exampleClient
        (exampleRequest (replicate 1048577 (CHR ''x'')))
      = (accepted,
         [\<lparr>out_endpoint = ''https://api.telegram.org/bot123:ABC/sendMessage'',
           out_body = jsonMarshal exampleEnv
            [''chat_id'' \<mapsto> VString ''42'',
             ''text'' \<mapsto> VString (replicate 3900 (CHR ''x'') @ ''...''),
             ''disable_web_page_preview'' \<mapsto> VBool True]\<rparr>])
   \<and> respStatus accepted = 202\<close>
proof -
  let ?big = "replicate 1048577 (CHR ''x'')"
  let ?cut = "replicate 1048576 (CHR ''x'')"
  have len: "maxPayloadBytes < length (reqBody (exampleRequest ?big))"
    by (simp add: exampleRequest_def maxPayloadBytes_def)
  have cut: "webhookHandler exampleEnv exampleConfig exampleClient (exampleRequest ?big)
      = webhookHandler exampleEnv exampleConfig exampleClient (exampleRequest ?cut)"
    by (simp add: webhookHandler_def exampleRequest_def readAllLimited_def maxPayloadBytes_def)
  have "length ?cut \<noteq> length exampleBody" by (simp add: exampleBody_def)
  then have "?cut \<noteq> exampleBody" by metis
  then have dec: "jsonDecode exampleEnv ?cut = None" by (rule example_decode_fails)
  have msg: "buildTelegramMessage exampleEnv Map.empty ?cut = replicate 3900 (CHR ''x'') @ ''...''"
    by (simp add: buildTelegramMessage_empty example_long_body)
  have "TrimSpace (fallbackRaw ?cut) = fallbackRaw ?cut"
    by (rule TrimSpace_fallbackRaw)
  then have "TrimSpace (replicate 3900 (CHR ''x'') @ ''...'') \<noteq> []"
    by (simp add: example_long_body)
  from example_send[OF this] dec msg
    example_dispatch[of ?cut exampleEnv exampleClient]
  have "webhookHandler exampleEnv exampleConfig exampleClient (exampleRequest ?cut)
      = (accepted,
         [\<lparr>out_endpoint = ''https://api.telegram.org/bot123:ABC/sendMessage'',
           out_body = jsonMarshal exampleEnv
            [''chat_id'' \<mapsto> VString ''42'',
             ''text'' \<mapsto> VString (replicate 3900 (CHR ''x'') @ ''...''),
             ''disable_web_page_preview'' \<mapsto> VBool True]\<rparr>])"
    by (simp add: maxPayloadBytes_def)
  with len cut show ?thesis by (simp add: accepted_def)
qed

text \<open>
  C3 as amended: a request whose body is longer than 1 MiB is handled exactly as the request
  with the first 1048576 bytes of that body; with the right method and token its response
  is 202 or 502, never 400. A body is rejected with 400 as unreadable when reading it fails
  before the cap is reached.
\<close>

theorem oversized_body_is_cut_not_rejected:
  "(maxPayloadBytes < length (reqBody r) \<longrightarrow>
      webhookHandler e cfg c r
        = webhookHandler e cfg c
            (r\<lparr>reqBody := take maxPayloadBytes (reqBody r), reqBodyFails := False\<rparr>)
      \<and> (reqMethod r = ''POST''
           \<and> headerGet (reqAuthorization r) = ''Bearer '' @ webhookToken cfg \<longrightarrow>
         respStatus (fst (webhookHandler e cfg c r)) \<in> {202, 502}))
   \<and> (length (reqBody r) < maxPayloadBytes \<and> reqBodyFails r \<and> reqMethod r = ''POST''
        \<and> headerGet (reqAuthorization r) = ''Bearer '' @ webhookToken cfg \<longrightarrow>
      webhookHandler e cfg c r = (httpError [] ''failed to read body'' 400, []))"
proof (intro conjI impI)
  assume big: "maxPayloadBytes < length (reqBody r)"
  then show "webhookHandler e cfg c r
        = webhookHandler e cfg c
            (r\<lparr>reqBody := take maxPayloadBytes (reqBody r), reqBodyFails := False\<rparr>)"
    by (simp add: webhookHandler_def readAllLimited_def)
  assume ok: "reqMethod r = ''POST''
           \<and> headerGet (reqAuthorization r) = ''Bearer '' @ webhookToken cfg"
  let ?body = "take maxPayloadBytes (reqBody r)"
  have rd: "readAllLimited maxPayloadBytes (reqBody r) (reqBodyFails r) = Some ?body"
    using big by (simp add: readAllLimited_def)
  have ne: "?body \<noteq> []" using big by (auto simp: maxPayloadBytes_def)
  from webhookHandler_dispatch[of r cfg ?body e c] ok rd ne
  show "respStatus (fst (webhookHandler e cfg c r)) \<in> {202, 502}"
    by (auto simp: accepted_def httpError_def split: prod.split option.split)
next
  assume "length (reqBody r) < maxPayloadBytes \<and> reqBodyFails r \<and> reqMethod r = ''POST''
        \<and> headerGet (reqAuthorization r) = ''Bearer '' @ webhookToken cfg"
  then show "webhookHandler e cfg c r = (httpError [] ''failed to read body'' 400, [])"
    by (simp add: webhookHandler_def readAllLimited_def)
qed

text \<open>
  The body of 1048577 bytes, and a body of three bytes whose read fails.
\<close>

theorem oversized_body_is_cut_not_rejected_witness:
  "maxPayloadBytes < length (replicate 1048577 (CHR ''x''))
   \<and> webhookHandler exampleEnv exampleConfig exampleClient
        (exampleRequest (replicate 1048577 (CHR ''x'')))
      = webhookHandler exampleEnv exampleConfig exampleClient
        (exampleRequest (replicate 1048576 (CHR ''x'')))
   \<and> respStatus (fst (webhookHandler exampleEnv exampleConfig exampleClient
        (exampleRequest (replicate 1048577 (CHR ''x''))))) \<in> {202, 502}
   \<and> webhookHandler exampleEnv exampleConfig exampleClient
        ((exampleRequest ''hel'')\<lparr>reqBodyFails := True\<rparr>)
      = (httpError [] ''failed to read body'' 400, [])"
proof -
  let ?big = "exampleRequest (replicate 1048577 (CHR ''x''))"
  have len: "maxPayloadBytes < length (reqBody ?big)"
    by (simp add: exampleRequest_def maxPayloadBytes_def)
  have cut: "?big\<lparr>reqBody := take maxPayloadBytes (reqBody ?big), reqBodyFails := False\<rparr>
      = exampleRequest (replicate 1048576 (CHR ''x''))"
    by (simp add: exampleRequest_def maxPayloadBytes_def)
  have post: "reqMethod ?big = ''POST''" by (simp add: exampleRequest_def)
  have fails: "length (reqBody ((exampleRequest ''hel'')\<lparr>reqBodyFails := True\<rparr>)) < maxPayloadBytes
      \<and> reqBodyFails ((exampleRequest ''hel'')\<lparr>reqBodyFails := True\<rparr>)
      \<and> reqMethod ((exampleRequest ''hel'')\<lparr>reqBodyFails := True\<rparr>) = ''POST''
      \<and> headerGet (reqAuthorization ((exampleRequest ''hel'')\<lparr>reqBodyFails := True\<rparr>))
          = ''Bearer '' @ webhookToken exampleConfig"
    by (simp add: exampleRequest_def exampleConfig_def headerGet_def maxPayloadBytes_def)
  from oversized_body_is_cut_not_rejected[of ?big exampleEnv exampleConfig exampleClient] len
  have both: "webhookHandler exampleEnv exampleConfig exampleClient ?big
        = webhookHandler exampleEnv exampleConfig exampleClient
            (?big\<lparr>reqBody := take maxPayloadBytes (reqBody ?big), reqBodyFails := False\<rparr>)
      \<and> (reqMethod ?big = ''POST''
           \<and> headerGet (reqAuthorization ?big) = ''Bearer '' @ webhookToken exampleConfig \<longrightarrow>
         respStatus (fst (webhookHandler exampleEnv exampleConfig exampleClient ?big))
           \<in> {202, 502})"
    by blast
  then have "webhookHandler exampleEnv exampleConfig exampleClient ?big
      = webhookHandler exampleEnv exampleConfig exampleClient
          (exampleRequest (replicate 1048576 (CHR ''x'')))"
    by (simp only: cut)
  moreover from both post example_auth[of "replicate 1048577 (CHR ''x'')"]
  have "respStatus (fst (webhookHandler exampleEnv exampleConfig exampleClient ?big)) \<in> {202, 502}"
    by blast
  moreover from oversized_body_is_cut_not_rejected[of
      "(exampleRequest ''hel'')\<lparr>reqBodyFails := True\<rparr>" exampleEnv exampleConfig exampleClient]
    fails
  have "webhookHandler exampleEnv exampleConfig exampleClient
        ((exampleRequest ''hel'')\<lparr>reqBodyFails := True\<rparr>)
      = (httpError [] ''failed to read body'' 400, [])"
    by blast
  moreover have "maxPayloadBytes < length (replicate 1048577 (CHR ''x''))"
    by (simp add: maxPayloadBytes_def)
  ultimately show ?thesis by blast
qed

subsection \<open>C4: the response mapping\<close>

text \<open>
  C4: a method other than POST gives 405 with the header \<open>Allow: POST\<close>; a POST whose
  \<open>Authorization\<close> header is not \<open>Bearer \<close> followed by the token, an absent header
  included, gives 401, and that response depends on neither the body nor the provider, and
  no outbound call is made; for a body that was read and is not empty, a dispatch without
  error gives the 202 response with the body \<open>{"ok":true}\<close>, and a dispatch with an error
  gives 502, in particular when the provider answers with a status of 300 or more.
\<close>

theorem response_mapping:
  \<open>(reqMethod r \<noteq> ''POST'' \<longrightarrow>
      webhookHandler e cfg c r = (httpError [(''Allow'', ''POST'')] ''method not allowed'' 405, []))
   \<and> (reqMethod r = ''POST'' \<and> headerGet (reqAuthorization r) \<noteq> ''Bearer '' @ webhookToken cfg \<longrightarrow>
      webhookHandler e cfg c r = (httpError [] ''unauthorized'' 401, []))
   \<and> (reqMethod r = ''POST'' \<and> reqAuthorization r = None \<longrightarrow>
      webhookHandler e cfg c r = (httpError [] ''unauthorized'' 401, []))
   \<and> (reqMethod r = ''POST'' \<and> headerGet (reqAuthorization r) = ''Bearer '' @ webhookToken cfg
        \<and> readAllLimited maxPayloadBytes (reqBody r) (reqBodyFails r) = Some body \<and> body \<noteq> []
        \<and> message = buildTelegramMessage e
              (case jsonDecode e body of None \<Rightarrow> Map.empty | Some p \<Rightarrow> p) body \<longrightarrow>
      (fst (sendMessage e c message) = None \<longrightarrow>
         webhookHandler e cfg c r = (accepted, snd (sendMessage e c message)))
      \<and> (fst (sendMessage e c message) \<noteq> None \<longrightarrow>
         webhookHandler e cfg c r
           = (httpError [] ''failed to forward notification'' 502, snd (sendMessage e c message)))
      \<and> (httpDo e \<lparr>out_endpoint = baseURL c @ ''/bot'' @ botToken c @ ''/sendMessage'',
                     out_body = jsonMarshal e
            [''chat_id'' \<mapsto> VString (chatID c),
             ''text'' \<mapsto> VString message,
             ''disable_web_page_preview'' \<mapsto> VBool True]\<rparr> = HttpResponse code b
           \<and> 300 \<le> code \<longrightarrow>
         respStatus (fst (webhookHandler e cfg c r)) = 502))
   \<and> respStatus accepted = 202 \<and> respBody accepted = ''{"ok":true}''
   \<and> respStatus (httpError hdr msg status) = status
   \<and> map_of (respHeader (httpError [(''Allow'', ''POST'')] msg status)) ''Allow'' = Some ''POST''\<close>
proof (intro conjI impI)
  assume "reqMethod r \<noteq> ''POST''"
  then show "webhookHandler e cfg c r
      = (httpError [(''Allow'', ''POST'')] ''method not allowed'' 405, [])"
    by (simp add: webhookHandler_def)
next
  assume "reqMethod r = ''POST'' \<and> headerGet (reqAuthorization r) \<noteq> ''Bearer '' @ webhookToken cfg"
  then show "webhookHandler e cfg c r = (httpError [] ''unauthorized'' 401, [])"
    by (simp add: webhookHandler_def)
next
  assume "reqMethod r = ''POST'' \<and> reqAuthorization r = None"
  then show "webhookHandler e cfg c r = (httpError [] ''unauthorized'' 401, [])"
    by (simp add: webhookHandler_def headerGet_def)
next
  assume a: "reqMethod r = ''POST'' \<and> headerGet (reqAuthorization r) = ''Bearer '' @ webhookToken cfg
        \<and> readAllLimited maxPayloadBytes (reqBody r) (reqBodyFails r) = Some body \<and> body \<noteq> []
        \<and> message = buildTelegramMessage e
              (case jsonDecode e body of None \<Rightarrow> Map.empty | Some p \<Rightarrow> p) body"
  then have h: "webhookHandler e cfg c r =
     (case sendMessage e c message of
        (Some err, calls) \<Rightarrow> (httpError [] ''failed to forward notification'' 502, calls)
      | (None, calls) \<Rightarrow> (accepted, calls))"
    using webhookHandler_dispatch[of r cfg body e c] by simp
  {
    assume "fst (sendMessage e c message) = None"
    with h show "webhookHandler e cfg c r = (accepted, snd (sendMessage e c message))"
      by (cases "sendMessage e c message") simp
  }
  {
    assume "fst (sendMessage e c message) \<noteq> None"
    with h show "webhookHandler e cfg c r
           = (httpError [] ''failed to forward notification'' 502, snd (sendMessage e c message))"
      by (cases "sendMessage e c message") auto
  }
  {
    assume "httpDo e \<lparr>out_endpoint = baseURL c @ ''/bot'' @ botToken c @ ''/sendMessage'',
                     out_body = jsonMarshal e
            [''chat_id'' \<mapsto> VString (chatID c),
             ''text'' \<mapsto> VString message,
             ''disable_web_page_preview'' \<mapsto> VBool True]\<rparr> = HttpResponse code b
           \<and> 300 \<le> code"
    then have "fst (sendMessage e c message) \<noteq> None"
      using sendMessage_status_fails[of e c message code b] by simp
    with h show "respStatus (fst (webhookHandler e cfg c r)) = 502"
      by (cases "sendMessage e c message") (auto simp: httpError_def)
  }
next
  show "respStatus accepted = 202" by (simp add: accepted_def)
  show \<open>respBody accepted = ''{"ok":true}''\<close> by (simp add: accepted_def)
  show "respStatus (httpError hdr msg status) = status" by (simp add: httpError_def)
  show "map_of (respHeader (httpError [(''Allow'', ''POST'')] msg status)) ''Allow'' = Some ''POST''"
    by (simp add: httpError_def)
qed

text \<open>
  A GET, a wrong token, no header, the README's request, the same request with a provider
  answering 500, and a request whose outbound call fails in transport.
\<close>

theorem response_mapping_witness:
  \<open>webhookHandler exampleEnv exampleConfig exampleClient
       ((exampleRequest exampleBody)\<lparr>reqMethod := ''GET''\<rparr>)
     = (httpError [(''Allow'', ''POST'')] ''method not allowed'' 405, [])
   \<and> webhookHandler exampleEnv exampleConfig exampleClient
       ((exampleRequest exampleBody)\<lparr>reqAuthorization := Some ''Bearer wrong''\<rparr>)
     = (httpError [] ''unauthorized'' 401, [])
   \<and> webhookHandler exampleEnv exampleConfig exampleClient
       ((exampleRequest exampleBody)\<lparr>reqAuthorization := None\<rparr>)
     = (httpError [] ''unauthorized'' 401, [])
   \<and> webhookHandler exampleEnv exampleConfig exampleClient (exampleRequest exampleBody)
     = (accepted,
        [\<lparr>out_endpoint = ''https://api.telegram.org/bot123:ABC/sendMessage'',
          out_body = jsonMarshal exampleEnv
            [''chat_id'' \<mapsto> VString ''42'',
             ''text'' \<mapsto> VString (''Monitor: Demo'' @ [CHR 0x0A] @ ''Status: UP'' @ [CHR 0x0A] @ ''Reason: All good'' @ [CHR 0x0A] @ ''---'' @ [CHR 0x0A] @ exampleBody),
             ''disable_web_page_preview'' \<mapsto> VBool True]\<rparr>])
   \<and> respStatus (fst (webhookHandler
         (exampleEnv\<lparr>httpDo := \<lambda>q. HttpResponse 500 ''Internal Server Error''\<rparr>)
         exampleConfig exampleClient (exampleRequest exampleBody))) = 502
   \<and> webhookHandler (exampleEnv\<lparr>httpDo := \<lambda>q. TransportError\<rparr>)
         exampleConfig exampleClient (exampleRequest ''hello'')
     = (httpError [] ''failed to forward notification'' 502,
        [\<lparr>out_endpoint = ''https://api.telegram.org/bot123:ABC/sendMessage'',
          out_body = jsonMarshal exampleEnv
            [''chat_id'' \<mapsto> VString ''42'',
             ''text'' \<mapsto> VString ''hello'',
             ''disable_web_page_preview'' \<mapsto> VBool True]\<rparr>])\<close>
proof -
  let ?msg = "''Monitor: Demo'' @ [CHR 0x0A] @ ''Status: UP'' @ [CHR 0x0A]
            @ ''Reason: All good'' @ [CHR 0x0A] @ ''---'' @ [CHR 0x0A] @ exampleBody"
  let ?e500 = "exampleEnv\<lparr>httpDo := \<lambda>q. HttpResponse 500 ''Internal Server Error''\<rparr>"
  let ?edown = "exampleEnv\<lparr>httpDo := \<lambda>q. TransportError\<rparr>"
  have rd: "readAllLimited maxPayloadBytes exampleBody False = Some exampleBody"
    by (simp add: readAllLimited_def maxPayloadBytes_def exampleBody_def)
  have ne: "exampleBody \<noteq> []" by (simp add: exampleBody_def)
  have dec: "jsonDecode exampleEnv exampleBody = Some examplePayload"
    by (simp add: exampleEnv_def)
  have msg: "buildTelegramMessage exampleEnv examplePayload exampleBody = ?msg"
    by (rule example_composed)
  have "TrimSpace ?msg = ?msg"
    by (rule TrimSpace_plain) (simp_all add: exampleBody_def spaceRunes_def)
  then have "TrimSpace ?msg \<noteq> []" by simp
  note ok = example_send[OF this]
  have dec500: "jsonDecode ?e500 = jsonDecode exampleEnv" by simp
  have msg500: "buildTelegramMessage ?e500 examplePayload exampleBody = ?msg"
    using msg buildTelegramMessage_env[of ?e500 exampleEnv examplePayload exampleBody] by simp
  have reply: "httpDo ?e500 q = HttpResponse 500 ''Internal Server Error''" for q by simp
  have thello: "TrimSpace ''hello'' = ''hello''" by (simp add: trim_eval)
  have dechello: "jsonDecode ?edown ''hello'' = None"
    by (simp add: exampleEnv_def exampleBody_def)
  have rdhello: "readAllLimited maxPayloadBytes ''hello'' False = Some ''hello''"
    by (simp add: readAllLimited_def maxPayloadBytes_def)
  have msghello: "buildTelegramMessage ?edown Map.empty ''hello'' = ''hello''"
    using thello by (simp add: buildTelegramMessage_empty fallbackRaw_def maxRaw_def)
  have send500: "fst (sendMessage ?e500 exampleClient ?msg) \<noteq> None"
    by (rule sendMessage_status_fails[where code = 500 and b = "''Internal Server Error''"]) simp_all
  have down: "sendMessage ?edown exampleClient ''hello'' =
     (Some ErrRequestFailed,
      [\<lparr>out_endpoint = ''https://api.telegram.org/bot123:ABC/sendMessage'',
        out_body = jsonMarshal exampleEnv
            [''chat_id'' \<mapsto> VString ''42'',
             ''text'' \<mapsto> VString ''hello'',
             ''disable_web_page_preview'' \<mapsto> VBool True]\<rparr>])"
    using thello by (simp add: sendMessage_def exampleEnv_def exampleClient_def)
  show ?thesis
    using response_mapping[of "(exampleRequest exampleBody)\<lparr>reqMethod := ''GET''\<rparr>"
        exampleEnv exampleConfig exampleClient]
      response_mapping[of "(exampleRequest exampleBody)\<lparr>reqAuthorization := Some ''Bearer wrong''\<rparr>"
        exampleEnv exampleConfig exampleClient]
      response_mapping[of "(exampleRequest exampleBody)\<lparr>reqAuthorization := None\<rparr>"
        exampleEnv exampleConfig exampleClient]
      response_mapping[of "exampleRequest exampleBody" exampleEnv exampleConfig exampleClient
        exampleBody ?msg]
      response_mapping[of "exampleRequest exampleBody" ?e500 exampleConfig exampleClient
        exampleBody ?msg 500 "''Internal Server Error''"]
      response_mapping[of "exampleRequest ''hello''" ?edown exampleConfig exampleClient
        "''hello''" "''hello''"]
      rd ne dec msg ok dec500 msg500 reply dechello rdhello msghello down example_auth
    by (simp add: exampleRequest_def exampleConfig_def headerGet_def)
qed

subsection \<open>C5: a body that does not decode is forwarded raw\<close>

text \<open>
  C5: when the body was read, is not empty and fails to decode, the handler goes on with the
  empty object: the composed message is the raw fallback of the body, the response is the
  one the dispatch of that message gives (202 or 502), and when the body is not blank and
  the endpoint is accepted, exactly one outbound call is made, whose body is \<open>json.Marshal\<close>
  of the map with that message as its \<open>text\<close>.
\<close>

theorem decode_failure_falls_back_to_raw:
  "reqMethod r = ''POST'' \<and> headerGet (reqAuthorization r) = ''Bearer '' @ webhookToken cfg
   \<and> readAllLimited maxPayloadBytes (reqBody r) (reqBodyFails r) = Some body \<and> body \<noteq> []
   \<and> jsonDecode e body = None \<longrightarrow>
     buildTelegramMessage e Map.empty body = fallbackRaw body
     \<and> webhookHandler e cfg c r =
         (case sendMessage e c (fallbackRaw body) of
            (Some err, calls) \<Rightarrow> (httpError [] ''failed to forward notification'' 502, calls)
          | (None, calls) \<Rightarrow> (accepted, calls))
     \<and> (TrimSpace body \<noteq> []
          \<and> newRequestOK e (baseURL c @ ''/bot'' @ botToken c @ ''/sendMessage'') \<longrightarrow>
        snd (webhookHandler e cfg c r) =
          [\<lparr>out_endpoint = baseURL c @ ''/bot'' @ botToken c @ ''/sendMessage'',
            out_body = jsonMarshal e
            [''chat_id'' \<mapsto> VString (chatID c),
             ''text'' \<mapsto> VString (fallbackRaw body),
             ''disable_web_page_preview'' \<mapsto> VBool True]\<rparr>])"
proof (intro impI)
  assume a: "reqMethod r = ''POST'' \<and> headerGet (reqAuthorization r) = ''Bearer '' @ webhookToken cfg
   \<and> readAllLimited maxPayloadBytes (reqBody r) (reqBodyFails r) = Some body \<and> body \<noteq> []
   \<and> jsonDecode e body = None"
  have fb: "buildTelegramMessage e Map.empty body = fallbackRaw body"
    by (rule buildTelegramMessage_empty)
  from a have h: "webhookHandler e cfg c r =
         (case sendMessage e c (fallbackRaw body) of
            (Some err, calls) \<Rightarrow> (httpError [] ''failed to forward notification'' 502, calls)
          | (None, calls) \<Rightarrow> (accepted, calls))"
    using webhookHandler_dispatch[of r cfg body e c] fb by simp
  have sent: "snd (webhookHandler e cfg c r) =
          [\<lparr>out_endpoint = baseURL c @ ''/bot'' @ botToken c @ ''/sendMessage'',
            out_body = jsonMarshal e
            [''chat_id'' \<mapsto> VString (chatID c),
             ''text'' \<mapsto> VString (fallbackRaw body),
             ''disable_web_page_preview'' \<mapsto> VBool True]\<rparr>]"
    if t: "TrimSpace body \<noteq> []
          \<and> newRequestOK e (baseURL c @ ''/bot'' @ botToken c @ ''/sendMessage'')"
  proof -
    from t have "TrimSpace (fallbackRaw body) \<noteq> []"
      by (simp add: TrimSpace_fallbackRaw fallbackRaw_Nil_iff)
    with t have "snd (sendMessage e c (fallbackRaw body)) =
          [\<lparr>out_endpoint = baseURL c @ ''/bot'' @ botToken c @ ''/sendMessage'',
            out_body = jsonMarshal e
            [''chat_id'' \<mapsto> VString (chatID c),
             ''text'' \<mapsto> VString (fallbackRaw body),
             ''disable_web_page_preview'' \<mapsto> VBool True]\<rparr>]"
      by (intro sendMessage_sent) simp_all
    moreover have "snd (webhookHandler e cfg c r) = snd (sendMessage e c (fallbackRaw body))"
      unfolding h by (cases "sendMessage e c (fallbackRaw body)") (auto split: option.split)
    ultimately show ?thesis by simp
  qed
  from fb h sent show "buildTelegramMessage e Map.empty body = fallbackRaw body
     \<and> webhookHandler e cfg c r =
         (case sendMessage e c (fallbackRaw body) of
            (Some err, calls) \<Rightarrow> (httpError [] ''failed to forward notification'' 502, calls)
          | (None, calls) \<Rightarrow> (accepted, calls))
     \<and> (TrimSpace body \<noteq> []
          \<and> newRequestOK e (baseURL c @ ''/bot'' @ botToken c @ ''/sendMessage'') \<longrightarrow>
        snd (webhookHandler e cfg c r) =
          [\<lparr>out_endpoint = baseURL c @ ''/bot'' @ botToken c @ ''/sendMessage'',
            out_body = jsonMarshal e
            [''chat_id'' \<mapsto> VString (chatID c),
             ''text'' \<mapsto> VString (fallbackRaw body),
             ''disable_web_page_preview'' \<mapsto> VBool True]\<rparr>])"
    by blast
qed

text \<open>
  The body \<open>hello\<close> is not JSON; it is the text of the one request sent, whose bytes are
  \<open>{"chat_id":"42","disable_web_page_preview":true,"text":"hello"}\<close>, and the response
  is 202.
\<close>

theorem decode_failure_falls_back_to_raw_witness:
  \<open>readAllLimited maxPayloadBytes ''hello'' False = Some ''hello''
   \<and> jsonDecode exampleEnv ''hello'' = None
   \<and> buildTelegramMessage exampleEnv Map.empty ''hello'' = ''hello''
   \<and> webhookHandler exampleEnv exampleConfig exampleClient (exampleRequest ''hello'')
      = (accepted,
         [\<lparr>out_endpoint = ''https://api.telegram.org/bot123:ABC/sendMessage'',
           out_body = jsonMarshal exampleEnv
            [''chat_id'' \<mapsto> VString ''42'',
             ''text'' \<mapsto> VString ''hello'',
             ''disable_web_page_preview'' \<mapsto> VBool True]\<rparr>])
   \<and> jsonMarshal exampleEnv
            [''chat_id'' \<mapsto> VString ''42'',
             ''text'' \<mapsto> VString ''hello'',
             ''disable_web_page_preview'' \<mapsto> VBool True]
       = ''{"chat_id":"42","disable_web_page_preview":true,"text":"hello"}''\<close>
proof -
  have t: "TrimSpace ''hello'' = ''hello''" by (simp add: trim_eval)
  have bytes: \<open>jsonMarshal exampleEnv
            [''chat_id'' \<mapsto> VString ''42'',
             ''text'' \<mapsto> VString ''hello'',
             ''disable_web_page_preview'' \<mapsto> VBool True]
       = ''{"chat_id":"42","disable_web_page_preview":true,"text":"hello"}''\<close>
    by (simp add: exampleEnv_def exampleMarshal_def exampleQuote_def)
  have dec: "jsonDecode exampleEnv ''hello'' = None"
    by (rule example_decode_fails) (simp add: exampleBody_def)
  have rd: "readAllLimited maxPayloadBytes ''hello'' False = Some ''hello''"
    by (simp add: readAllLimited_def maxPayloadBytes_def)
  have fb: "fallbackRaw ''hello'' = ''hello''"
    using t by (simp add: fallbackRaw_def maxRaw_def)
  have snd': "sendMessage exampleEnv exampleClient ''hello'' =
     (None, [\<lparr>out_endpoint = ''https://api.telegram.org/bot123:ABC/sendMessage'',
              out_body = jsonMarshal exampleEnv
            [''chat_id'' \<mapsto> VString ''42'',
             ''text'' \<mapsto> VString ''hello'',
             ''disable_web_page_preview'' \<mapsto> VBool True]\<rparr>])"
    by (rule example_send) (simp add: t)
  show ?thesis
    using decode_failure_falls_back_to_raw[of "exampleRequest ''hello''" exampleConfig "''hello''"
        exampleEnv exampleClient]
      dec rd fb snd' example_auth bytes
    by (simp add: exampleRequest_def)
qed

subsection \<open>C6: the raw fallback and the raw excerpt\<close>

text \<open>
  C6 says that the fallback text is the raw bytes wrapped in an empty-payload template. The
  composer of \<open>main.go\<close> returns \<open>fallbackRaw(raw)\<close> itself: for the empty object with
  the body \<open>{}\<close> the composed text is \<open>{}\<close>, two bytes with nothing around them, and for
  a blank body it is the empty text.
\<close>

theorem fallback_has_no_template:
  "buildTelegramMessage exampleEnv Map.empty ''{}'' = ''{}''
   \<and> length (buildTelegramMessage exampleEnv Map.empty ''{}'') = 2
   \<and> buildTelegramMessage exampleEnv Map.empty [CHR '' '', CHR 0x0A] = []"
  by (simp add: buildTelegramMessage_empty fallbackRaw_def maxRaw_def trim_eval)

text \<open>
  C6 as amended: when no field was extracted (all seven extracted values are empty, as for the
  empty object), the composed text is the raw fallback, with no template around it: the raw
  bytes with surrounding white space trimmed, cut to their first 3900 bytes with \<open>...\<close>
  appended when they are longer, so never more than 3903 bytes. When a field was extracted,
  the trimmed field section is not empty and the same excerpt follows it, after the separator
  line \<open>---\<close>; an excerpt that is empty (a blank raw body) adds nothing.
\<close>

theorem raw_fallback_and_excerpt:
  "(list_all (\<lambda>v. v = []) (extractedFields e payload) \<longrightarrow>
      buildTelegramMessage e payload raw = fallbackRaw raw)
   \<and> buildTelegramMessage e Map.empty raw = fallbackRaw raw
   \<and> fallbackRaw raw =
        (if length (TrimSpace raw) > 3900 then take 3900 (TrimSpace raw) @ ''...''
         else TrimSpace raw)
   \<and> length (fallbackRaw raw) \<le> 3900 + length ''...''
   \<and> (\<not> list_all (\<lambda>v. v = []) (extractedFields e payload) \<longrightarrow>
        TrimSpace (builderString e payload) \<noteq> []
        \<and> buildTelegramMessage e payload raw =
            TrimSpace (builderString e payload)
            @ (if fallbackRaw raw = [] then []
               else [CHR 0x0A] @ ''---'' @ [CHR 0x0A] @ fallbackRaw raw))"
proof (intro conjI impI)
  assume "list_all (\<lambda>v. v = []) (extractedFields e payload)"
  then show "buildTelegramMessage e payload raw = fallbackRaw raw"
    by (simp add: buildTelegramMessage_eq builderString_Nil_iff)
next
  show "buildTelegramMessage e Map.empty raw = fallbackRaw raw"
    by (rule buildTelegramMessage_empty)
next
  show "fallbackRaw raw =
        (if length (TrimSpace raw) > 3900 then take 3900 (TrimSpace raw) @ ''...''
         else TrimSpace raw)"
    by (auto simp: fallbackRaw_def Let_def maxRaw_def)
next
  show "length (fallbackRaw raw) \<le> 3900 + length ''...''"
    using length_fallbackRaw[of raw] by simp
next
  assume "\<not> list_all (\<lambda>v. v = []) (extractedFields e payload)"
  then have ne: "builderString e payload \<noteq> []"
    by (simp add: builderString_Nil_iff)
  then show "TrimSpace (builderString e payload) \<noteq> []"
    by (simp add: TrimSpace_builderString_Nil_iff)
  from ne show "buildTelegramMessage e payload raw =
            TrimSpace (builderString e payload)
            @ (if fallbackRaw raw = [] then []
               else [CHR 0x0A] @ ''---'' @ [CHR 0x0A] @ fallbackRaw raw)"
    by (simp add: buildTelegramMessage_eq)
qed

text \<open>
  The empty object with a blank-padded body, a body of 4000 bytes, and the README's payload.
\<close>

theorem raw_fallback_and_excerpt_witness:
  \<open>list_all (\<lambda>v. v = []) (extractedFields exampleEnv Map.empty)
   \<and> buildTelegramMessage exampleEnv Map.empty ''  {}  '' = ''{}''
   \<and> fallbackRaw (replicate 4000 (CHR ''x'')) = replicate 3900 (CHR ''x'') @ ''...''
   \<and> \<not> list_all (\<lambda>v. v = []) (extractedFields exampleEnv examplePayload)
   \<and> buildTelegramMessage exampleEnv examplePayload exampleBody
       = ''Monitor: Demo'' @ [CHR 0x0A] @ ''Status: UP'' @ [CHR 0x0A] @ ''Reason: All good''
         @ [CHR 0x0A] @ ''---'' @ [CHR 0x0A] @ exampleBody\<close>
proof -
  have blank: "TrimSpace ''  {}  '' = ''{}''"
    by (simp add: trim_eval)
  have long: "TrimSpace (replicate 4000 (CHR ''x'')) = replicate 4000 (CHR ''x'')"
    by (rule TrimSpace_plain) (simp_all add: spaceRunes_def)
  have none: "list_all (\<lambda>v. v = []) (extractedFields exampleEnv Map.empty)"
    by (simp add: extractedFields_def stringFromMap_def)
  have some: "\<not> list_all (\<lambda>v. v = []) (extractedFields exampleEnv examplePayload)"
    by (simp add: extractedFields_def examplePayload_def stringFromMap_def trim_eval)
  have lines: "TrimSpace (builderString exampleEnv examplePayload)
       = ''Monitor: Demo'' @ [CHR 0x0A] @ ''Status: UP'' @ [CHR 0x0A] @ ''Reason: All good''"
    using ToUpper_up
    by (simp add: builderString_lines examplePayload_def stringFromMap_def trim_eval)
  have raw: "fallbackRaw exampleBody = exampleBody"
    using TrimSpace_exampleBody by (simp add: fallbackRaw_def maxRaw_def exampleBody_def)
  have ne: "exampleBody \<noteq> []" by (simp add: exampleBody_def)
  show ?thesis
    using raw_fallback_and_excerpt[of exampleEnv Map.empty "''  {}  ''"]
      raw_fallback_and_excerpt[of exampleEnv Map.empty "replicate 4000 (CHR ''x'')"]
      raw_fallback_and_excerpt[of exampleEnv examplePayload exampleBody]
      blank long none some lines raw ne
    by simp
qed

subsection \<open>C7: only a body of length zero is rejected as empty\<close>

text \<open>
  C7 says that a body that is empty after trimming white space is answered with 400 without
  the composer or the dispatcher being invoked. The handler tests \<open>len(body) == 0\<close> on the
  bytes as read. A body of one space passes that test, fails to decode, is composed to the
  empty text, and is refused by the dispatcher: the response is 502.
\<close>

theorem blank_body_reaches_dispatcher:
  "TrimSpace '' '' = []
   \<and> webhookHandler exampleEnv exampleConfig exampleClient (exampleRequest '' '')
      = (httpError [] ''failed to forward notification'' 502, [])
   \<and> respStatus (httpError [] ''failed to forward notification'' 502) = 502"
proof -
  have blank: "TrimSpace '' '' = []" by (simp add: trim_eval)
  have dec: "jsonDecode exampleEnv '' '' = None"
    by (rule example_decode_fails) (simp add: exampleBody_def)
  have "buildTelegramMessage exampleEnv Map.empty '' '' = []"
    using blank by (simp add: buildTelegramMessage_empty fallbackRaw_Nil_iff)
  moreover have "sendMessage exampleEnv exampleClient [] = (Some ErrEmptyMessage, [])"
    by (simp add: sendMessage_def TrimSpace_Nil)
  ultimately show ?thesis
    using example_dispatch[of "'' ''" exampleEnv exampleClient] dec blank
    by (simp add: maxPayloadBytes_def httpError_def)
qed

text \<open>
  C7 as amended: a request with the right method and token whose body has length zero is
  answered with 400 and no outbound call, whatever the decoder, the composer or the provider
  would do. The body is not trimmed for this test: a body that was read and is not empty,
  blank or not, is never answered with 400 but with 202 or 502, and a body that is not empty
  but is empty after trimming, and which the decoder refuses (as \<open>encoding/json\<close> does
  for white space alone), is answered with 502 (the dispatcher refuses the empty text it
  composes to) and no outbound call.
\<close>

theorem empty_body_rejected_untrimmed:
  "(reqMethod r = ''POST'' \<and> headerGet (reqAuthorization r) = ''Bearer '' @ webhookToken cfg
      \<and> reqBody r = [] \<longrightarrow>
        respStatus (fst (webhookHandler e cfg c r)) = 400 \<and> snd (webhookHandler e cfg c r) = [])
   \<and> (reqMethod r = ''POST'' \<and> headerGet (reqAuthorization r) = ''Bearer '' @ webhookToken cfg
      \<and> reqBody r = [] \<and> \<not> reqBodyFails r \<longrightarrow>
        webhookHandler e cfg c r = (httpError [] ''empty body'' 400, []))
   \<and> (reqMethod r = ''POST'' \<and> headerGet (reqAuthorization r) = ''Bearer '' @ webhookToken cfg
      \<and> readAllLimited maxPayloadBytes (reqBody r) (reqBodyFails r) = Some body
      \<and> body \<noteq> [] \<and> TrimSpace body = [] \<and> jsonDecode e body = None \<longrightarrow>
        webhookHandler e cfg c r = (httpError [] ''failed to forward notification'' 502, []))
   \<and> (reqMethod r = ''POST'' \<and> headerGet (reqAuthorization r) = ''Bearer '' @ webhookToken cfg
      \<and> readAllLimited maxPayloadBytes (reqBody r) (reqBodyFails r) = Some body
      \<and> body \<noteq> [] \<longrightarrow>
        respStatus (fst (webhookHandler e cfg c r)) \<in> {202, 502})"
proof (intro conjI impI)
  assume a: "reqMethod r = ''POST'' \<and> headerGet (reqAuthorization r) = ''Bearer '' @ webhookToken cfg
      \<and> reqBody r = []"
  then show "respStatus (fst (webhookHandler e cfg c r)) = 400"
    by (simp add: webhookHandler_def readAllLimited_def maxPayloadBytes_def httpError_def)
  from a show "snd (webhookHandler e cfg c r) = []"
    by (simp add: webhookHandler_def readAllLimited_def maxPayloadBytes_def)
next
  assume "reqMethod r = ''POST'' \<and> headerGet (reqAuthorization r) = ''Bearer '' @ webhookToken cfg
      \<and> reqBody r = [] \<and> \<not> reqBodyFails r"
  then show "webhookHandler e cfg c r = (httpError [] ''empty body'' 400, [])"
    by (simp add: webhookHandler_def readAllLimited_def maxPayloadBytes_def)
next
  assume a: "reqMethod r = ''POST'' \<and> headerGet (reqAuthorization r) = ''Bearer '' @ webhookToken cfg
      \<and> readAllLimited maxPayloadBytes (reqBody r) (reqBodyFails r) = Some body
      \<and> body \<noteq> [] \<and> TrimSpace body = [] \<and> jsonDecode e body = None"
  then have "buildTelegramMessage e Map.empty body = []"
    by (simp add: buildTelegramMessage_empty fallbackRaw_Nil_iff)
  then have "sendMessage e c (buildTelegramMessage e Map.empty body) = (Some ErrEmptyMessage, [])"
    by (simp add: sendMessage_def TrimSpace_Nil)
  with a webhookHandler_dispatch[of r cfg body e c]
  show "webhookHandler e cfg c r = (httpError [] ''failed to forward notification'' 502, [])"
    by simp
next
  assume "reqMethod r = ''POST'' \<and> headerGet (reqAuthorization r) = ''Bearer '' @ webhookToken cfg
      \<and> readAllLimited maxPayloadBytes (reqBody r) (reqBodyFails r) = Some body
      \<and> body \<noteq> []"
  with webhookHandler_dispatch[of r cfg body e c]
  show "respStatus (fst (webhookHandler e cfg c r)) \<in> {202, 502}"
    by (auto simp: accepted_def httpError_def split: prod.split option.split)
qed

text \<open>
  The empty body, and the body of one space.
\<close>

theorem empty_body_rejected_untrimmed_witness:
  "webhookHandler exampleEnv exampleConfig exampleClient (exampleRequest [])
      = (httpError [] ''empty body'' 400, [])
   \<and> respStatus (fst (webhookHandler exampleEnv exampleConfig exampleClient (exampleRequest []))) = 400
   \<and> readAllLimited maxPayloadBytes '' '' False = Some '' '' \<and> TrimSpace '' '' = []
   \<and> jsonDecode exampleEnv '' '' = None
   \<and> webhookHandler exampleEnv exampleConfig exampleClient (exampleRequest '' '')
      = (httpError [] ''failed to forward notification'' 502, [])
   \<and> respStatus (fst (webhookHandler exampleEnv exampleConfig exampleClient
        (exampleRequest '' ''))) \<in> {202, 502}"
proof -
  have blank: "TrimSpace '' '' = []" by (simp add: trim_eval)
  have dec: "jsonDecode exampleEnv '' '' = None"
    by (rule example_decode_fails) (simp add: exampleBody_def)
  have rd: "readAllLimited maxPayloadBytes '' '' False = Some '' ''"
    by (simp add: readAllLimited_def maxPayloadBytes_def)
  show ?thesis
    using empty_body_rejected_untrimmed[of "exampleRequest []" exampleConfig exampleEnv
        exampleClient "'' ''"]
      empty_body_rejected_untrimmed[of "exampleRequest '' ''" exampleConfig exampleEnv
        exampleClient "'' ''"]
      blank dec rd example_auth
    by (simp add: exampleRequest_def httpError_def)
qed

subsection \<open>C8: the dispatcher refuses a blank text\<close>

text \<open>
  C8: for a text that is a sequence of white-space runes, the empty text included,
  \<open>sendMessage\<close> returns its local error and hands no request to the HTTP client.
\<close>

theorem sendMessage_blank_text_fails_fast:
  "set ws \<subseteq> set spaceRunes \<Longrightarrow> sendMessage e c (concat ws) = (Some ErrEmptyMessage, [])"
  by (simp add: sendMessage_def TrimSpace_spaces)

text \<open>
  A space, a newline and a no-break space; and the empty text.
\<close>

theorem sendMessage_blank_text_fails_fast_witness:
  "set [[CHR '' ''], [CHR 0x0A], [CHR 0xC2, CHR 0xA0]] \<subseteq> set spaceRunes
   \<and> sendMessage exampleEnv exampleClient [CHR '' '', CHR 0x0A, CHR 0xC2, CHR 0xA0]
       = (Some ErrEmptyMessage, [])
   \<and> sendMessage exampleEnv exampleClient [] = (Some ErrEmptyMessage, [])"
proof -
  have sub: "set [[CHR '' ''], [CHR 0x0A], [CHR 0xC2, CHR 0xA0]] \<subseteq> set spaceRunes"
    by (simp add: spaceRunes_def)
  show ?thesis
    using sub sendMessage_blank_text_fails_fast[OF sub, of exampleEnv exampleClient]
      sendMessage_blank_text_fails_fast[of "[]" exampleEnv exampleClient]
    by simp
qed

subsection \<open>C9: a number is rendered as it was written\<close>

text \<open>
  C9 says that every whole-number value is rendered without a decimal point or an exponent.
  The decoder runs with \<open>UseNumber\<close>, so a number reaches the composer as the text of its
  literal, and \<open>json.Number.String\<close> returns that text: the whole numbers \<open>1e3\<close> and
  \<open>12.0\<close> keep their exponent and their decimal point.
\<close>

theorem whole_number_keeps_its_notation:
  \<open>stringFromMap exampleEnv [''ping'' \<mapsto> VNumber ''1e3''] ''ping'' = ''1e3''
   \<and> stringFromMap exampleEnv [''ping'' \<mapsto> VNumber ''12.0''] ''ping'' = ''12.0''
   \<and> buildTelegramMessage exampleEnv [''ping'' \<mapsto> VNumber ''1e3''] ''{"ping":1e3}''
       = ''Ping: 1e3'' @ [CHR 0x0A] @ ''---'' @ [CHR 0x0A] @ ''{"ping":1e3}''\<close>
  by (simp add: buildTelegramMessage_eq builderString_lines stringFromMap_def fallbackRaw_def
      maxRaw_def trim_eval)

text \<open>
  C9 as amended: a \<open>json.Number\<close>, at the top level or under \<open>monitor\<close>, is rendered as
  exactly the text of its literal, with nothing added, removed or reformatted, and that text
  is what the \<open>Ping: \<close> line shows. So a whole number written as an integer literal has no
  decimal point or exponent, and one written with either keeps it.
\<close>

theorem number_rendered_as_written:
  "(payload key = Some (VNumber lit) \<longrightarrow> stringFromMap e payload key = lit)
   \<and> (payload k1 = Some (VMap m) \<and> m k2 = Some (VNumber lit) \<longrightarrow>
        nestedString e (VMap payload) [k1, k2] = lit)
   \<and> (payload ''ping'' = Some (VNumber lit) \<and> lit \<noteq> [] \<longrightarrow>
        suffix (''Ping: '' @ lit @ [CHR 0x0A]) (builderString e payload))"
  by (simp add: stringFromMap_def builderString_lines suffix_def del: append_assoc)

text \<open>
  The literals \<open>42\<close> and \<open>7\<close>.
\<close>

theorem number_rendered_as_written_witness:
  \<open>stringFromMap exampleEnv [''ping'' \<mapsto> VNumber ''42''] ''ping'' = ''42''
   \<and> nestedString exampleEnv (VMap [''monitor'' \<mapsto> VMap [''name'' \<mapsto> VNumber ''7'']])
        [''monitor'', ''name''] = ''7''
   \<and> suffix (''Ping: 42'' @ [CHR 0x0A]) (builderString exampleEnv [''ping'' \<mapsto> VNumber ''42''])\<close>
  using number_rendered_as_written[of "[''ping'' \<mapsto> VNumber ''42'']" "''ping''" "''42''" exampleEnv
      "''ping''" Map.empty "''ping''"]
    number_rendered_as_written[of "[''monitor'' \<mapsto> VMap [''name'' \<mapsto> VNumber ''7'']]" "''status''"
      "''7''" exampleEnv "''monitor''" "[''name'' \<mapsto> VNumber ''7'']" "''name''"]
  by simp

subsection \<open>C10: a blank string field is an absent field\<close>

text \<open>
  C10: a string value, at the top level or nested, is used with its surrounding white space
  trimmed, and the trimmed value neither starts nor ends with a white-space rune. A string
  that is empty after trimming is treated as absent: the composed text is the one for the
  payload without that key, at the top level and inside the \<open>monitor\<close> object alike. The
  builder holds one line per field, in the order Monitor, Status, Reason, URL, Time, Ping, and
  a field whose extracted value is empty contributes nothing to it, neither its label nor a
  newline, whatever the other fields are: no label is written with an empty value. The
  composed text is that builder trimmed, followed by the raw excerpt, so when every extracted
  value is empty the builder is empty and no label is written at all.
\<close>

theorem blank_field_is_absent:
  "(payload key = Some (VString s) \<longrightarrow> stringFromMap e payload key = TrimSpace s)
   \<and> (payload k1 = Some (VMap m) \<and> m k2 = Some (VString s) \<longrightarrow>
        nestedString e (VMap payload) [k1, k2] = TrimSpace s)
   \<and> leadingSpace (TrimSpace s) = 0
   \<and> trailingSpace (TrimSpace s) = 0
   \<and> (TrimSpace s = [] \<longrightarrow>
        buildTelegramMessage e (payload(key \<mapsto> VString s)) raw
          = buildTelegramMessage e (payload(key := None)) raw
        \<and> buildTelegramMessage e (payload(''monitor'' \<mapsto> VMap (m(key \<mapsto> VString s)))) raw
          = buildTelegramMessage e (payload(''monitor'' \<mapsto> VMap (m(key := None)))) raw)
   \<and> (list_all (\<lambda>v. v = []) (extractedFields e payload) \<longrightarrow> builderString e payload = [])
   \<and> builderString e payload =
       (let line = (\<lambda>label val shown. if val \<noteq> [] then label @ shown @ [CHR 0x0A] else []);
            monitorName = nestedString e (VMap payload) [''monitor'', ''name''];
            status = stringFromMap e payload ''status'';
            reason = (if stringFromMap e payload ''incidentReason'' = []
                      then stringFromMap e payload ''msg''
                      else stringFromMap e payload ''incidentReason'');
            monitorURL = nestedString e (VMap payload) [''monitor'', ''url''];
            timestamp = stringFromMap e payload ''time'';
            ping = stringFromMap e payload ''ping''
        in line ''Monitor: '' monitorName monitorName
           @ line ''Status: '' status (ToUpper e status)
           @ line ''Reason: '' reason reason
           @ line ''URL: '' monitorURL monitorURL
           @ line ''Time: '' timestamp timestamp
           @ line ''Ping: '' ping ping)
   \<and> buildTelegramMessage e payload raw =
       (if builderString e payload = [] then fallbackRaw raw
        else TrimSpace (builderString e payload)
             @ (if fallbackRaw raw = [] then []
                else [CHR 0x0A] @ ''---'' @ [CHR 0x0A] @ fallbackRaw raw))"
proof (intro conjI impI)
  show "builderString e payload =
       (let line = (\<lambda>label val shown. if val \<noteq> [] then label @ shown @ [CHR 0x0A] else []);
            monitorName = nestedString e (VMap payload) [''monitor'', ''name''];
            status = stringFromMap e payload ''status'';
            reason = (if stringFromMap e payload ''incidentReason'' = []
                      then stringFromMap e payload ''msg''
                      else stringFromMap e payload ''incidentReason'');
            monitorURL = nestedString e (VMap payload) [''monitor'', ''url''];
            timestamp = stringFromMap e payload ''time'';
            ping = stringFromMap e payload ''ping''
        in line ''Monitor: '' monitorName monitorName
           @ line ''Status: '' status (ToUpper e status)
           @ line ''Reason: '' reason reason
           @ line ''URL: '' monitorURL monitorURL
           @ line ''Time: '' timestamp timestamp
           @ line ''Ping: '' ping ping)"
    unfolding Let_def by (rule builderString_lines)
  show "buildTelegramMessage e payload raw =
       (if builderString e payload = [] then fallbackRaw raw
        else TrimSpace (builderString e payload)
             @ (if fallbackRaw raw = [] then []
                else [CHR 0x0A] @ ''---'' @ [CHR 0x0A] @ fallbackRaw raw))"
    by (rule buildTelegramMessage_eq)
next
  assume "payload key = Some (VString s)"
  then show "stringFromMap e payload key = TrimSpace s" by (simp add: stringFromMap_def)
next
  assume "payload k1 = Some (VMap m) \<and> m k2 = Some (VString s)"
  then show "nestedString e (VMap payload) [k1, k2] = TrimSpace s" by simp
next
  show "leadingSpace (TrimSpace s) = 0" by (rule leadingSpace_TrimSpace)
  show "trailingSpace (TrimSpace s) = 0" by (rule trailingSpace_TrimSpace)
next
  assume blank: "TrimSpace s = []"
  show "buildTelegramMessage e (payload(key \<mapsto> VString s)) raw
          = buildTelegramMessage e (payload(key := None)) raw"
    by (rule buildTelegramMessage_cong[OF extractedFields_blank[OF blank]])
  show "buildTelegramMessage e (payload(''monitor'' \<mapsto> VMap (m(key \<mapsto> VString s)))) raw
          = buildTelegramMessage e (payload(''monitor'' \<mapsto> VMap (m(key := None)))) raw"
    by (rule buildTelegramMessage_cong[OF extractedFields_blank_nested[OF blank]])
next
  assume "list_all (\<lambda>v. v = []) (extractedFields e payload)"
  then show "builderString e payload = []" by (simp add: builderString_Nil_iff)
qed

text \<open>
  A padded message and a padded monitor name are trimmed; a blank \<open>msg\<close> and a blank
  \<open>monitor.url\<close> leave no line, the latter also next to a monitor name.
\<close>

theorem blank_field_is_absent_witness:
  \<open>stringFromMap exampleEnv [''msg'' \<mapsto> VString ''  All good ''] ''msg'' = ''All good''
   \<and> nestedString exampleEnv (VMap [''monitor'' \<mapsto> VMap [''name'' \<mapsto> VString '' Demo'']])
        [''monitor'', ''name''] = ''Demo''
   \<and> TrimSpace [CHR '' '', CHR 0x09, CHR 0x0A] = []
   \<and> buildTelegramMessage exampleEnv
        [''status'' \<mapsto> VString ''up'', ''msg'' \<mapsto> VString [CHR '' '', CHR 0x09, CHR 0x0A]] ''x''
       = ''Status: UP'' @ [CHR 0x0A] @ ''---'' @ [CHR 0x0A] @ ''x''
   \<and> buildTelegramMessage exampleEnv
        [''status'' \<mapsto> VString ''up'',
         ''monitor'' \<mapsto> VMap [''url'' \<mapsto> VString [CHR '' '', CHR 0x09, CHR 0x0A]]] ''x''
       = ''Status: UP'' @ [CHR 0x0A] @ ''---'' @ [CHR 0x0A] @ ''x''
   \<and> builderString exampleEnv [''msg'' \<mapsto> VString [CHR '' '', CHR 0x09, CHR 0x0A]] = []
   \<and> builderString exampleEnv
        [''monitor'' \<mapsto> VMap [''name'' \<mapsto> VString ''Demo'',
                                ''url'' \<mapsto> VString [CHR '' '', CHR 0x09, CHR 0x0A]]]
       = ''Monitor: Demo'' @ [CHR 0x0A]
   \<and> buildTelegramMessage exampleEnv
        [''monitor'' \<mapsto> VMap [''name'' \<mapsto> VString ''Demo'',
                                ''url'' \<mapsto> VString [CHR '' '', CHR 0x09, CHR 0x0A]]] ''x''
       = ''Monitor: Demo'' @ [CHR 0x0A] @ ''---'' @ [CHR 0x0A] @ ''x''\<close>
proof -
  let ?ws = "[CHR '' '', CHR 0x09, CHR 0x0A]"
  let ?mon = "[''monitor'' \<mapsto> VMap [''name'' \<mapsto> VString ''Demo'', ''url'' \<mapsto> VString ?ws]]"
  let ?up = "[''status'' \<mapsto> VString ''up'']"
  have blank: "TrimSpace ?ws = []" by (simp add: trim_eval)
  have t1: "TrimSpace ''  All good '' = ''All good''" by (simp add: trim_eval)
  have t2: "TrimSpace '' Demo'' = ''Demo''" by (simp add: trim_eval)
  have t3: "TrimSpace ''Demo'' = ''Demo''" by (simp add: trim_eval)
  have t4: "TrimSpace (''Monitor: Demo'' @ [CHR 0x0A]) = ''Monitor: Demo''" by (simp add: trim_eval)
  have rawx: "fallbackRaw ''x'' = ''x''" by (simp add: fallbackRaw_def maxRaw_def trim_eval)
  have a: "stringFromMap exampleEnv [''msg'' \<mapsto> VString ''  All good ''] ''msg'' = ''All good''"
    using blank_field_is_absent[of "[''msg'' \<mapsto> VString ''  All good '']" "''msg''"
        "''  All good ''" exampleEnv "''msg''" Map.empty "''msg''" "''x''", THEN conjunct1] t1
    by simp
  have b: "nestedString exampleEnv (VMap [''monitor'' \<mapsto> VMap [''name'' \<mapsto> VString '' Demo'']])
        [''monitor'', ''name''] = ''Demo''"
    using blank_field_is_absent[of "[''monitor'' \<mapsto> VMap [''name'' \<mapsto> VString '' Demo'']]" "''name''"
        "'' Demo''" exampleEnv "''monitor''" "[''name'' \<mapsto> VString '' Demo'']" "''name''" "''x''",
        THEN conjunct2, THEN conjunct1] t2
    by simp
  have up: "buildTelegramMessage exampleEnv (?up(''msg'' := None)) ''x''
       = ''Status: UP'' @ [CHR 0x0A] @ ''---'' @ [CHR 0x0A] @ ''x''"
    using ToUpper_up[of exampleEnv]
    by (simp add: buildTelegramMessage_eq builderString_lines stringFromMap_def fallbackRaw_def
        maxRaw_def trim_eval)
  have up2: "buildTelegramMessage exampleEnv
        (?up(''monitor'' \<mapsto> VMap (Map.empty(''url'' := None)))) ''x''
       = ''Status: UP'' @ [CHR 0x0A] @ ''---'' @ [CHR 0x0A] @ ''x''"
    using ToUpper_up[of exampleEnv]
    by (simp add: buildTelegramMessage_eq builderString_lines stringFromMap_def fallbackRaw_def
        maxRaw_def trim_eval)
  have c: "buildTelegramMessage exampleEnv [''status'' \<mapsto> VString ''up'', ''msg'' \<mapsto> VString ?ws] ''x''
       = ''Status: UP'' @ [CHR 0x0A] @ ''---'' @ [CHR 0x0A] @ ''x''"
    using blank_field_is_absent[of ?up "''msg''" ?ws exampleEnv
        "''msg''" Map.empty "''msg''" "''x''",
        THEN conjunct2, THEN conjunct2, THEN conjunct2, THEN conjunct2, THEN conjunct1] blank up
    by simp
  have d: "buildTelegramMessage exampleEnv
        [''status'' \<mapsto> VString ''up'', ''monitor'' \<mapsto> VMap [''url'' \<mapsto> VString ?ws]] ''x''
       = ''Status: UP'' @ [CHR 0x0A] @ ''---'' @ [CHR 0x0A] @ ''x''"
    using blank_field_is_absent[of ?up "''url''" ?ws exampleEnv
        "''msg''" Map.empty "''msg''" "''x''",
        THEN conjunct2, THEN conjunct2, THEN conjunct2, THEN conjunct2, THEN conjunct1] blank up2
    by simp
  have none: "list_all (\<lambda>v. v = []) (extractedFields exampleEnv [''msg'' \<mapsto> VString ?ws])"
    using blank by (simp add: extractedFields_def stringFromMap_def)
  have f: "builderString exampleEnv [''msg'' \<mapsto> VString ?ws] = []"
    using blank_field_is_absent[of "[''msg'' \<mapsto> VString ?ws]" "''msg''" ?ws exampleEnv
        "''msg''" Map.empty "''msg''" "''x''",
        THEN conjunct2, THEN conjunct2, THEN conjunct2, THEN conjunct2, THEN conjunct2,
        THEN conjunct1] none
    by blast
  have lines: "builderString exampleEnv ?mon = ''Monitor: Demo'' @ [CHR 0x0A]"
    using blank_field_is_absent[of ?mon "''msg''" ?ws exampleEnv "''msg''" Map.empty "''msg''" "''x''",
        THEN conjunct2, THEN conjunct2, THEN conjunct2, THEN conjunct2, THEN conjunct2,
        THEN conjunct2, THEN conjunct1] t3 blank
    by (simp add: Let_def stringFromMap_def)
  have composed: "buildTelegramMessage exampleEnv ?mon ''x''
       = ''Monitor: Demo'' @ [CHR 0x0A] @ ''---'' @ [CHR 0x0A] @ ''x''"
    using blank_field_is_absent[of ?mon "''msg''" ?ws exampleEnv "''msg''" Map.empty "''msg''" "''x''",
        THEN conjunct2, THEN conjunct2, THEN conjunct2, THEN conjunct2, THEN conjunct2,
        THEN conjunct2, THEN conjunct2] lines t4 rawx
    by simp
  from a b blank c d f lines composed show ?thesis
    by (simp only: simp_thms)
qed

end
